theory Spec2Isabelle
  imports Complex_Main
begin

section \<open>JavaScript values and the operations the handler applies to them\<close>

text \<open>
  The handler works on whatever JSON the upstream API sends, so the payloads are modelled
  as dynamically typed values. A number is its mathematical value (negative zero is not
  told apart from zero: both are falsy, and both are written \<open>0\<close> in a JSON body), or one
  of the three non-finite numbers. An object is the list of its own properties in
  insertion order, with distinct keys.
\<close>

datatype number = Fin rat | PosInf | NegInf | NaN

datatype jsval =
    Undefined
  | Null
  | JBool bool
  | JNum number
  | JStr string
  | JArr "jsval list"
  | JObj "(string \<times> jsval) list"

text \<open>
  A thrown \<open>Error\<close> is modelled by its \<open>message\<close>, the only part the \<open>catch\<close> block reads.
  \<open>Inl msg\<close> is a throw (or a rejected promise), \<open>Inr v\<close> a normal result.
\<close>

type_synonym 'a result = "string + 'a"

definition and_then :: "'a result \<Rightarrow> ('a \<Rightarrow> 'b result) \<Rightarrow> 'b result" where
  "and_then r f = (case r of Inl e \<Rightarrow> Inl e | Inr v \<Rightarrow> f v)"

fun truthy :: "jsval \<Rightarrow> bool" where
  "truthy Undefined = False"
| "truthy Null = False"
| "truthy (JBool b) = b"
| "truthy (JNum n) = (n \<noteq> Fin 0 \<and> n \<noteq> NaN)"
| "truthy (JStr s) = (s \<noteq> [])"
| "truthy (JArr xs) = True"
| "truthy (JObj kvs) = True"

definition js_or :: "jsval \<Rightarrow> jsval \<Rightarrow> jsval" where
  \<comment> \<open>\<open>a || b\<close>\<close>
  "js_or a b = (if truthy a then a else b)"

definition nullish :: "jsval \<Rightarrow> bool" where
  "nullish v = (v = Undefined \<or> v = Null)"

definition quoted :: "string \<Rightarrow> string" where
  "quoted s = [CHR 0x27] @ s @ [CHR 0x27]"

definition cannot_read :: "jsval \<Rightarrow> string \<Rightarrow> string" where
  \<comment> \<open>the engine's (V8) wording of the TypeError for a property read on null or undefined\<close>
  "cannot_read v k =
     ''Cannot read properties of '' @ (if v = Null then ''null'' else ''undefined'')
       @ '' (reading '' @ quoted k @ '')''"

fun own_prop :: "jsval \<Rightarrow> string \<Rightarrow> jsval" where
  \<comment> \<open>\<open>v.k\<close> for a \<open>v\<close> that is neither null nor undefined, and a name \<open>k\<close> that no
      prototype defines (true of every data property the handler reads)\<close>
  "own_prop (JObj kvs) k = (case map_of kvs k of Some v \<Rightarrow> v | None \<Rightarrow> Undefined)"
| "own_prop v k = Undefined"

definition get_prop :: "jsval \<Rightarrow> string \<Rightarrow> jsval result" where
  \<comment> \<open>\<open>v.k\<close>\<close>
  "get_prop v k = (if nullish v then Inl (cannot_read v k) else Inr (own_prop v k))"

definition opt_chain :: "jsval \<Rightarrow> string \<Rightarrow> jsval" where
  \<comment> \<open>\<open>v?.k\<close>\<close>
  "opt_chain v k = (if nullish v then Undefined else own_prop v k)"

fun to_string_throws :: "jsval \<Rightarrow> bool" where
  \<comment> \<open>The conversion of a value to text throws a TypeError on an object with a
      \<open>toString\<close> member of its own, which in parsed JSON is never callable and hides the
      inherited method (the inherited \<open>valueOf\<close> then returns the object itself, or a
      member of that name is not callable either). An array joins the texts of its
      elements, \<open>null\<close> and \<open>undefined\<close> counting as empty, and throws when one of them
      does.\<close>
  "to_string_throws (JObj kvs) = (map_of kvs ''toString'' \<noteq> None)"
| "to_string_throws (JArr xs) = list_ex to_string_throws xs"
| "to_string_throws v = False"

definition float_of :: "(jsval \<Rightarrow> number) \<Rightarrow> jsval \<Rightarrow> number" where
  \<comment> \<open>What \<open>parseFloat\<close> returns when the conversion to text succeeds. A number comes
      back as it is. For anything else the engine reads the longest decimal prefix of
      the text; that floating-point conversion is not modelled and is the parameter
      \<open>pf\<close>.\<close>
  "float_of pf v = (case v of JNum n \<Rightarrow> n | _ \<Rightarrow> pf v)"

definition parseFloat :: "(jsval \<Rightarrow> number) \<Rightarrow> jsval \<Rightarrow> number result" where
  \<comment> \<open>\<open>parseFloat(v)\<close>: the argument is converted to text first, which may throw (the
      message is the engine's wording)\<close>
  "parseFloat pf v =
     (if to_string_throws v then Inl ''Cannot convert object to primitive value''
      else Inr (float_of pf v))"

definition is_alnum :: "char \<Rightarrow> bool" where
  \<comment> \<open>the complement of the class \<open>[^a-zA-Z0-9]\<close>\<close>
  "is_alnum c =
     (let n = (of_char c :: nat)
      in (97 \<le> n \<and> n \<le> 122) \<or> (65 \<le> n \<and> n \<le> 90) \<or> (48 \<le> n \<and> n \<le> 57))"

definition replace_non_alnum :: "string \<Rightarrow> jsval \<Rightarrow> jsval result" where
  \<comment> \<open>\<open>v.replace(/[^a-zA-Z0-9]/g, '')\<close>, where \<open>src\<close> is the text of the expression \<open>v\<close>,
      which the engine quotes when \<open>v\<close> has no such method\<close>
  "replace_non_alnum src v =
     (if nullish v then Inl (cannot_read v ''replace'')
      else case v of
             JStr s \<Rightarrow> Inr (JStr (filter is_alnum s))
           | _ \<Rightarrow> Inl (src @ ''.replace is not a function''))"

fun map_result :: "('a \<Rightarrow> 'b result) \<Rightarrow> 'a list \<Rightarrow> 'b list result" where
  \<comment> \<open>the callback runs on the elements in order; the first throw ends the loop\<close>
  "map_result f [] = Inr []"
| "map_result f (x # xs) =
     (case f x of
        Inl e \<Rightarrow> Inl e
      | Inr y \<Rightarrow> (case map_result f xs of Inl e \<Rightarrow> Inl e | Inr ys \<Rightarrow> Inr (y # ys)))"

definition array_map :: "string \<Rightarrow> (jsval \<Rightarrow> jsval result) \<Rightarrow> jsval \<Rightarrow> jsval result" where
  \<comment> \<open>\<open>v.map(f)\<close>: only an array has the method\<close>
  "array_map src f v =
     (if nullish v then Inl (cannot_read v ''map'')
      else case v of
             JArr xs \<Rightarrow> (case map_result f xs of Inl e \<Rightarrow> Inl e | Inr ys \<Rightarrow> Inr (JArr ys))
           | _ \<Rightarrow> Inl (src @ ''.map is not a function''))"

fun show_nat :: "nat \<Rightarrow> string" where
  \<comment> \<open>a status code inside a template literal: its decimal digits\<close>
  "show_nat n =
     (if n < 10 then [''0123456789'' ! n]
      else show_nat (n div 10) @ [''0123456789'' ! (n mod 10)])"

declare show_nat.simps [simp del]

section \<open>The environment of one invocation\<close>

text \<open>
  \<open>process.env\<close> is a map from variable names to strings. A settled \<open>fetch\<close> either
  rejects (network failure; \<open>Inl\<close> of the error's message) or resolves to a response, of
  which the handler reads the status, the body as text, and the body parsed as JSON
  (\<open>Inl\<close> of the SyntaxError's message when the body is not JSON). Every fetch is assumed
  to settle. \<open>Promise.all\<close> rejects with the first rejection in time, so the world also says
  which of the two fetches settles first.
\<close>

type_synonym env = "string \<Rightarrow> string option"

type_synonym http_headers = "(string \<times> string) list"

record fetch_response =
  status :: nat
  body_text :: string
  body_json :: "jsval result"

definition ok :: "fetch_response \<Rightarrow> bool" where
  \<comment> \<open>\<open>res.ok\<close>: the status is in the range 200 to 299\<close>
  "ok r = (200 \<le> status r \<and> status r \<le> 299)"

record world =
  fetch :: "string \<Rightarrow> http_headers \<Rightarrow> fetch_response result"
  second_settles_first :: bool

definition promise_all2 :: "bool \<Rightarrow> 'a result \<Rightarrow> 'b result \<Rightarrow> ('a \<times> 'b) result" where
  "promise_all2 snd_first a b =
     (case a of
        Inr x \<Rightarrow> (case b of Inr y \<Rightarrow> Inr (x, y) | Inl e \<Rightarrow> Inl e)
      | Inl e1 \<Rightarrow> (case b of Inr y \<Rightarrow> Inl e1 | Inl e2 \<Rightarrow> Inl (if snd_first then e2 else e1)))"

datatype console_line = ConsoleError string | ConsoleLog string

text \<open>
  What one invocation does: the response it writes (status, headers set by the handler,
  and the value handed to \<open>response.json\<close>, which the platform serialises), the
  outbound calls it issued, and the lines it logged. Writing the response
  (\<open>setHeader\<close>, \<open>status\<close>, \<open>json\<close>) does not throw: the values written are strings,
  numbers and parsed JSON.
\<close>

record outcome =
  res_status :: nat
  res_headers :: http_headers
  res_body :: jsval
  calls :: "(string \<times> http_headers) list"
  console :: "console_line list"

section \<open>The handler that merges product and reviews, with defaults (src/unnamed/part_000)\<close>

text \<open>
  The repository holds three variants of the handler of \<open>/api/gumroad.js\<close>. This one
  fetches product and reviews, tolerates a reviews response 404 and defaults the optional
  members of the product. Each handler takes the engine's reading of a number from text
  \<open>pf\<close> (see \<open>float_of\<close>), the environment variables, the network as it answers during this
  invocation, and the inbound request, which it never reads.
\<close>

definition product_url :: "string \<Rightarrow> string" where
  "product_url PRODUCT_ID = ''https://api.gumroad.com/v2/products/'' @ PRODUCT_ID"

definition reviews_url :: "string \<Rightarrow> string" where
  "reviews_url PRODUCT_ID = ''https://api.gumroad.com/v2/products/'' @ PRODUCT_ID @ ''/reviews''"

definition api_headers :: "string \<Rightarrow> http_headers" where
  "api_headers TOKEN = [(''Authorization'', ''Bearer '' @ TOKEN)]"

definition product_id :: "env \<Rightarrow> string" where
  \<comment> \<open>\<open>process.env.GUMROAD_PRODUCT_ID || 'rdcvzn'\<close>: unset and empty both give the default\<close>
  "product_id e =
     (case e ''GUMROAD_PRODUCT_ID'' of
        None \<Rightarrow> ''rdcvzn''
      | Some s \<Rightarrow> (if s = [] then ''rdcvzn'' else s))"

definition product_error :: "fetch_response \<Rightarrow> string" where
  "product_error r =
     ''Gumroad Product API responded with status '' @ show_nat (status r)
       @ ''. Details: '' @ body_text r"

definition reviews_error :: "fetch_response \<Rightarrow> string" where
  "reviews_error r =
     ''Gumroad Reviews API responded with status '' @ show_nat (status r)
       @ ''. Details: '' @ body_text r"

definition product_field :: "jsval \<Rightarrow> string \<Rightarrow> jsval result" where
  \<comment> \<open>\<open>productData.product.k\<close>\<close>
  "product_field productData k = and_then (get_prop productData ''product'') (\<lambda>p. get_prop p k)"

definition review_entry :: "jsval \<Rightarrow> jsval result" where
  "review_entry review =
     and_then (get_prop review ''user_name'') (\<lambda>name.
     and_then (get_prop review ''rating'') (\<lambda>rating.
     and_then (get_prop review ''review_content'') (\<lambda>content.
     and_then (and_then (get_prop review ''user_name'') (replace_non_alnum ''review.user_name''))
       (\<lambda>avatar_id.
     Inr (JObj [(''name'', name), (''rating'', rating), (''content'', content),
                (''avatar_id'', avatar_id)])))))"

definition review_entries :: "jsval \<Rightarrow> jsval result" where
  \<comment> \<open>\<open>reviewsData.reviews.map(review => ...)\<close>\<close>
  "review_entries reviewsData =
     and_then (get_prop reviewsData ''reviews'') (array_map ''reviewsData.reviews'' review_entry)"

definition response_data :: "(jsval \<Rightarrow> number) \<Rightarrow> jsval \<Rightarrow> jsval \<Rightarrow> jsval result" where
  "response_data pf productData reviewsData =
     and_then (product_field productData ''sales_count'') (\<lambda>sales_count.
     and_then (and_then (product_field productData ''rating'') (\<lambda>rating.
                 parseFloat pf (js_or (opt_chain rating ''average_rating'') (JNum (Fin 0)))))
       (\<lambda>rating_average.
     and_then (product_field productData ''rating'') (\<lambda>rating.
     and_then (product_field productData ''formatted_price'') (\<lambda>formatted_price.
     and_then (product_field productData ''permalink'') (\<lambda>permalink.
     and_then (review_entries reviewsData) (\<lambda>reviews.
     Inr (JObj
       [(''sales_count'', sales_count),
        (''rating_average'', JNum rating_average),
        (''rating_count'', js_or (opt_chain rating ''count'') (JNum (Fin 0))),
        (''formatted_price'', formatted_price),
        (''permalink'', js_or permalink (JStr ''rdcvzn'')),
        (''reviews'', reviews)])))))))"

definition no_reviews_note :: string where
  "no_reviews_note = ''Gumroad reviews returned 404. This is normal if there are no reviews yet. Proceeding with an empty list.''"

definition after_fetch ::
  "(jsval \<Rightarrow> number) \<Rightarrow> fetch_response \<Rightarrow> fetch_response \<Rightarrow> console_line list \<times> jsval result"
where
  \<comment> \<open>steps 4 and 5 of the try block: the checks of the two responses, then the merge\<close>
  "after_fetch pf productRes reviewsRes =
     (if \<not> ok productRes then ([], Inl (product_error productRes))
      else if ok reviewsRes then
        ([], and_then (body_json reviewsRes) (\<lambda>reviewsData.
             and_then (body_json productRes) (\<lambda>productData.
             response_data pf productData reviewsData)))
      else if status reviewsRes = 404 then
        ([ConsoleLog no_reviews_note],
         and_then (body_json productRes) (\<lambda>productData.
         response_data pf productData (JObj [(''success'', JBool True), (''reviews'', JArr [])])))
      else ([], Inl (reviews_error reviewsRes)))"

definition fetch_both ::
  "env \<Rightarrow> world
     \<Rightarrow> (string \<times> http_headers) list \<times> console_line list
         \<times> (fetch_response \<times> fetch_response) result"
where
  \<comment> \<open>steps 1 to 3 of the try block: the token check and the two parallel fetches\<close>
  "fetch_both e w =
     (case e ''GUMROAD_ACCESS_TOKEN'' of
        None \<Rightarrow>
          ([], [ConsoleError ''GUMROAD_ACCESS_TOKEN environment variable is not set.''],
           Inl ''Server configuration error: Missing API token.'')
      | Some TOKEN \<Rightarrow>
          if TOKEN = [] then
            ([], [ConsoleError ''GUMROAD_ACCESS_TOKEN environment variable is not set.''],
             Inl ''Server configuration error: Missing API token.'')
          else
            let productUrl = product_url (product_id e);
                reviewsUrl = reviews_url (product_id e);
                apiHeaders = api_headers TOKEN
            in ([(productUrl, apiHeaders), (reviewsUrl, apiHeaders)], [],
                promise_all2 (second_settles_first w)
                  (fetch w productUrl apiHeaders) (fetch w reviewsUrl apiHeaders)))"

definition try_block ::
  "(jsval \<Rightarrow> number) \<Rightarrow> env \<Rightarrow> world
     \<Rightarrow> (string \<times> http_headers) list \<times> console_line list \<times> jsval result"
where
  "try_block pf e w =
     (case fetch_both e w of (issued, logged, fetched) \<Rightarrow>
        (case fetched of
           Inl message \<Rightarrow> (issued, logged, Inl message)
         | Inr (productRes, reviewsRes) \<Rightarrow>
             (case after_fetch pf productRes reviewsRes of (noted, r) \<Rightarrow>
                (issued, logged @ noted, r))))"

definition cache_control :: "string \<times> string" where
  "cache_control = (''Cache-Control'', ''s-maxage=900, stale-while-revalidate'')"

definition respond ::
  "(string \<times> http_headers) list \<times> console_line list \<times> jsval result \<Rightarrow> outcome"
where
  \<comment> \<open>step 6 on a normal end of the try block, the catch block on a throw\<close>
  "respond t =
     (case t of (issued, logged, r) \<Rightarrow>
        (case r of
           Inr responseData \<Rightarrow>
             \<lparr>res_status = 200, res_headers = [cache_control], res_body = responseData,
              calls = issued, console = logged\<rparr>
         | Inl message \<Rightarrow>
             \<lparr>res_status = 500, res_headers = [],
              res_body = JObj
                [(''error'', JStr ''An internal server error occurred while fetching Gumroad data.''),
                 (''details'', JStr message)],
              calls = issued,
              console = logged @ [ConsoleError (''Error in Vercel function: '' @ message)]\<rparr>))"

definition handler :: "(jsval \<Rightarrow> number) \<Rightarrow> env \<Rightarrow> world \<Rightarrow> 'req \<Rightarrow> outcome" where
  "handler pf e w request = respond (try_block pf e w)"

section \<open>The handler that merges product and reviews, without defaults (src/unnamed/part_001)\<close>

text \<open>
  Steps 1 to 3 and the two ways of responding are, statement for statement, those of
  the handler above; the checks of the responses and the merge differ.
\<close>

definition response_data_part_001 :: "(jsval \<Rightarrow> number) \<Rightarrow> jsval \<Rightarrow> jsval \<Rightarrow> jsval result"
where
  "response_data_part_001 pf productData reviewsData =
     and_then (product_field productData ''sales_count'') (\<lambda>sales_count.
     and_then (and_then (and_then (product_field productData ''rating'')
                 (\<lambda>rating. get_prop rating ''average_rating'')) (parseFloat pf))
       (\<lambda>rating_average.
     and_then (and_then (product_field productData ''rating'')
                 (\<lambda>rating. get_prop rating ''count'')) (\<lambda>rating_count.
     and_then (product_field productData ''formatted_price'') (\<lambda>formatted_price.
     and_then (product_field productData ''permalink'') (\<lambda>permalink.
     and_then (review_entries reviewsData) (\<lambda>reviews.
     Inr (JObj
       [(''sales_count'', sales_count),
        (''rating_average'', JNum rating_average),
        (''rating_count'', rating_count),
        (''formatted_price'', formatted_price),
        (''permalink'', permalink),
        (''reviews'', reviews)])))))))"

definition after_fetch_part_001 ::
  "(jsval \<Rightarrow> number) \<Rightarrow> fetch_response \<Rightarrow> fetch_response \<Rightarrow> jsval result"
where
  "after_fetch_part_001 pf productRes reviewsRes =
     (if \<not> ok productRes then Inl (product_error productRes)
      else if \<not> ok reviewsRes then Inl (reviews_error reviewsRes)
      else and_then (body_json productRes) (\<lambda>productData.
           and_then (body_json reviewsRes) (\<lambda>reviewsData.
           response_data_part_001 pf productData reviewsData)))"

definition try_block_part_001 ::
  "(jsval \<Rightarrow> number) \<Rightarrow> env \<Rightarrow> world
     \<Rightarrow> (string \<times> http_headers) list \<times> console_line list \<times> jsval result"
where
  "try_block_part_001 pf e w =
     (case fetch_both e w of (issued, logged, fetched) \<Rightarrow>
        (case fetched of
           Inl message \<Rightarrow> (issued, logged, Inl message)
         | Inr (productRes, reviewsRes) \<Rightarrow>
             (issued, logged, after_fetch_part_001 pf productRes reviewsRes)))"

definition handler_part_001 :: "(jsval \<Rightarrow> number) \<Rightarrow> env \<Rightarrow> world \<Rightarrow> 'req \<Rightarrow> outcome"
where
  "handler_part_001 pf e w request = respond (try_block_part_001 pf e w)"

section \<open>The handler that proxies the product alone (src/api/gumroad.js)\<close>

definition gumroad_error :: "fetch_response \<Rightarrow> string" where
  "gumroad_error r =
     ''Gumroad API responded with status '' @ show_nat (status r)
       @ ''. Details: '' @ body_text r"

definition response_data_gumroad_js :: "(jsval \<Rightarrow> number) \<Rightarrow> jsval \<Rightarrow> jsval result" where
  "response_data_gumroad_js pf productData =
     and_then (product_field productData ''sales_count'') (\<lambda>sales_count.
     and_then (and_then (and_then (product_field productData ''rating'')
                 (\<lambda>rating. get_prop rating ''average_rating'')) (parseFloat pf))
       (\<lambda>rating_average.
     and_then (and_then (product_field productData ''rating'')
                 (\<lambda>rating. get_prop rating ''count'')) (\<lambda>rating_count.
     and_then (product_field productData ''formatted_price'') (\<lambda>formatted_price.
     and_then (product_field productData ''permalink'') (\<lambda>permalink.
     Inr (JObj
       [(''sales_count'', sales_count),
        (''rating_average'', JNum rating_average),
        (''rating_count'', rating_count),
        (''formatted_price'', formatted_price),
        (''permalink'', permalink)]))))))"

definition try_block_gumroad_js ::
  "(jsval \<Rightarrow> number) \<Rightarrow> env \<Rightarrow> world \<Rightarrow> (string \<times> http_headers) list \<times> jsval result"
where
  "try_block_gumroad_js pf e w =
     (case e ''GUMROAD_ACCESS_TOKEN'' of
        None \<Rightarrow> ([], Inl ''GUMROAD_ACCESS_TOKEN environment variable is not set.'')
      | Some TOKEN \<Rightarrow>
          if TOKEN = [] then ([], Inl ''GUMROAD_ACCESS_TOKEN environment variable is not set.'')
          else
            let productUrl = product_url ''rdcvzn'';
                sent = api_headers TOKEN
            in ([(productUrl, sent)],
                and_then (fetch w productUrl sent) (\<lambda>productRes.
                  if \<not> ok productRes then Inl (gumroad_error productRes)
                  else and_then (body_json productRes) (response_data_gumroad_js pf))))"

definition cache_control_gumroad_js :: "string \<times> string" where
  "cache_control_gumroad_js = (''Cache-Control'', ''s-maxage=3600, stale-while-revalidate'')"

definition respond_gumroad_js :: "(string \<times> http_headers) list \<times> jsval result \<Rightarrow> outcome" where
  "respond_gumroad_js t =
     (case t of (issued, r) \<Rightarrow>
        (case r of
           Inr responseData \<Rightarrow>
             \<lparr>res_status = 200, res_headers = [cache_control_gumroad_js],
              res_body = responseData, calls = issued, console = []\<rparr>
         | Inl message \<Rightarrow>
             \<lparr>res_status = 500, res_headers = [],
              res_body = JObj
                [(''error'', JStr ''An internal server error occurred.''),
                 (''details'', JStr message)],
              calls = issued,
              console = [ConsoleError (''Error in Vercel function: '' @ message)]\<rparr>))"

definition handler_gumroad_js :: "(jsval \<Rightarrow> number) \<Rightarrow> env \<Rightarrow> world \<Rightarrow> 'req \<Rightarrow> outcome"
where
  "handler_gumroad_js pf e w request = respond_gumroad_js (try_block_gumroad_js pf e w)"

section \<open>Words of the specification\<close>

fun starts_with :: "string \<Rightarrow> string \<Rightarrow> bool" where
  "starts_with s [] = True"
| "starts_with [] (c # cs) = False"
| "starts_with (d # ds) (c # cs) = (d = c \<and> starts_with ds cs)"

fun mentions :: "string \<Rightarrow> string \<Rightarrow> bool" where
  \<comment> \<open>the text \<open>s\<close> contains the word \<open>w\<close>\<close>
  "mentions [] w = (w = [])"
| "mentions (d # ds) w = (starts_with (d # ds) w \<or> mentions ds w)"

definition detail :: "outcome \<Rightarrow> jsval" where
  \<comment> \<open>the \<open>details\<close> member of an error body\<close>
  "detail out = own_prop (res_body out) ''details''"

definition product_fetch :: "env \<Rightarrow> world \<Rightarrow> fetch_response result option" where
  \<comment> \<open>how the product fetch of the two merging handlers settles; \<open>None\<close> when no token
      is configured, so that no fetch is issued\<close>
  "product_fetch e w =
     (case e ''GUMROAD_ACCESS_TOKEN'' of
        None \<Rightarrow> None
      | Some TOKEN \<Rightarrow>
          if TOKEN = [] then None
          else Some (fetch w (product_url (product_id e)) (api_headers TOKEN)))"

definition reviews_fetch :: "env \<Rightarrow> world \<Rightarrow> fetch_response result option" where
  \<comment> \<open>how the reviews fetch settles; \<open>None\<close> when no fetch is issued\<close>
  "reviews_fetch e w =
     (case e ''GUMROAD_ACCESS_TOKEN'' of
        None \<Rightarrow> None
      | Some TOKEN \<Rightarrow>
          if TOKEN = [] then None
          else Some (fetch w (reviews_url (product_id e)) (api_headers TOKEN)))"

definition product_fetch_gumroad_js :: "env \<Rightarrow> world \<Rightarrow> fetch_response result option" where
  \<comment> \<open>how the only fetch of the product-only handler settles\<close>
  "product_fetch_gumroad_js e w =
     (case e ''GUMROAD_ACCESS_TOKEN'' of
        None \<Rightarrow> None
      | Some TOKEN \<Rightarrow>
          if TOKEN = [] then None
          else Some (fetch w (product_url ''rdcvzn'') (api_headers TOKEN)))"

definition has_product :: "fetch_response \<Rightarrow> bool" where
  \<comment> \<open>the body is JSON, not \<open>null\<close>, with a \<open>product\<close> member that is not \<open>null\<close> either\<close>
  "has_product r =
     (case body_json r of
        Inl m \<Rightarrow> False
      | Inr productData \<Rightarrow> \<not> nullish productData \<and> \<not> nullish (own_prop productData ''product''))"

definition product_of :: "fetch_response \<Rightarrow> jsval" where
  \<comment> \<open>the \<open>product\<close> member of a body that has one\<close>
  "product_of r = (case body_json r of Inl m \<Rightarrow> Undefined | Inr productData \<Rightarrow> own_prop productData ''product'')"

definition average_rating_of :: "fetch_response \<Rightarrow> jsval" where
  \<comment> \<open>what the handler with defaults hands to \<open>parseFloat\<close>: the average rating of the
      product, or 0 when that is missing or falsy\<close>
  "average_rating_of r =
     js_or (opt_chain (own_prop (product_of r) ''rating'') ''average_rating'') (JNum (Fin 0))"

definition issued_calls :: "env \<Rightarrow> (string \<times> http_headers) list" where
  \<comment> \<open>the two outbound calls of the merging handlers, once a token is configured\<close>
  "issued_calls e =
     (case e ''GUMROAD_ACCESS_TOKEN'' of
        None \<Rightarrow> []
      | Some TOKEN \<Rightarrow>
          if TOKEN = [] then []
          else [(product_url (product_id e), api_headers TOKEN),
                (reviews_url (product_id e), api_headers TOKEN)])"

definition names_reviewer :: "jsval \<Rightarrow> bool" where
  \<comment> \<open>a review record whose \<open>user_name\<close> is a string\<close>
  "names_reviewer review = (case own_prop review ''user_name'' of JStr s \<Rightarrow> True | _ \<Rightarrow> False)"

definition has_reviews :: "fetch_response \<Rightarrow> bool" where
  \<comment> \<open>the body is JSON with a \<open>reviews\<close> array of records that name their reviewer\<close>
  "has_reviews r =
     (case body_json r of
        Inl m \<Rightarrow> False
      | Inr reviewsData \<Rightarrow>
          (case own_prop reviewsData ''reviews'' of
             JArr xs \<Rightarrow> list_all names_reviewer xs
           | _ \<Rightarrow> False))"

definition reviews_of :: "fetch_response \<Rightarrow> jsval list" where
  \<comment> \<open>the upstream review records of a body that has them\<close>
  "reviews_of r =
     (case body_json r of
        Inl m \<Rightarrow> []
      | Inr reviewsData \<Rightarrow> (case own_prop reviewsData ''reviews'' of JArr xs \<Rightarrow> xs | _ \<Rightarrow> []))"

definition fully_successful :: "env \<Rightarrow> world \<Rightarrow> bool" where
  \<comment> \<open>both fetches return, the product response is 2xx and carries a product whose
      average rating converts to text, and the reviews response is 2xx and carries
      reviews, or is a 404\<close>
  "fully_successful e w =
     (case product_fetch e w of
        Some (Inr productRes) \<Rightarrow>
          ok productRes \<and> has_product productRes \<and>
          \<not> to_string_throws (average_rating_of productRes) \<and>
          (case reviews_fetch e w of
             Some (Inr reviewsRes) \<Rightarrow>
               (if ok reviewsRes then has_reviews reviewsRes else status reviewsRes = 404)
           | _ \<Rightarrow> False)
      | _ \<Rightarrow> False)"

definition fully_successful_gumroad_js :: "env \<Rightarrow> world \<Rightarrow> bool" where
  \<comment> \<open>the fetch returns a 2xx response that carries a product with a rating object whose
      average rating converts to text\<close>
  "fully_successful_gumroad_js e w =
     (case product_fetch_gumroad_js e w of
        Some (Inr productRes) \<Rightarrow>
          ok productRes \<and> has_product productRes \<and>
          \<not> nullish (own_prop (product_of productRes) ''rating'') \<and>
          \<not> to_string_throws
               (own_prop (own_prop (product_of productRes) ''rating'') ''average_rating'')
      | _ \<Rightarrow> False)"

section \<open>Sample inputs\<close>

definition sample_env :: env where
  "sample_env = (\<lambda>k. if k = ''GUMROAD_ACCESS_TOKEN'' then Some ''secret'' else None)"

definition upstream :: "fetch_response result \<Rightarrow> fetch_response result \<Rightarrow> world" where
  \<comment> \<open>a world in which the product endpoint settles as \<open>p\<close> and the reviews endpoint as \<open>r\<close>\<close>
  "upstream p r =
     \<lparr>fetch = (\<lambda>url sent.
         if url = ''https://api.gumroad.com/v2/products/rdcvzn'' then p
         else if url = ''https://api.gumroad.com/v2/products/rdcvzn/reviews'' then r
         else Inl ''fetch failed''),
      second_settles_first = False\<rparr>"

definition sample_product :: fetch_response where
  "sample_product =
     \<lparr>status = 200,
      body_text = ''{\"success\":true,\"product\":{\"sales_count\":12,\"formatted_price\":\"$10\",\"permalink\":\"abc\",\"rating\":{\"count\":3,\"average_rating\":4.5}}}'',
      body_json = Inr (JObj
        [(''success'', JBool True),
         (''product'', JObj
            [(''sales_count'', JNum (Fin 12)),
             (''formatted_price'', JStr ''$10''),
             (''permalink'', JStr ''abc''),
             (''rating'', JObj [(''count'', JNum (Fin 3)), (''average_rating'', JNum (Fin 4.5))])])])\<rparr>"

definition unrated_product :: fetch_response where
  \<comment> \<open>a product with a permalink and no rating object\<close>
  "unrated_product =
     \<lparr>status = 200,
      body_text = ''{\"success\":true,\"product\":{\"sales_count\":12,\"formatted_price\":\"$10\",\"permalink\":\"abc\"}}'',
      body_json = Inr (JObj
        [(''success'', JBool True),
         (''product'', JObj
            [(''sales_count'', JNum (Fin 12)), (''formatted_price'', JStr ''$10''),
             (''permalink'', JStr ''abc'')])])\<rparr>"

definition unlinked_product :: fetch_response where
  \<comment> \<open>a product with a rating object and no permalink\<close>
  "unlinked_product =
     \<lparr>status = 200,
      body_text = ''{\"success\":true,\"product\":{\"sales_count\":12,\"formatted_price\":\"$10\",\"rating\":{\"count\":3,\"average_rating\":4.5}}}'',
      body_json = Inr (JObj
        [(''success'', JBool True),
         (''product'', JObj
            [(''sales_count'', JNum (Fin 12)), (''formatted_price'', JStr ''$10''),
             (''rating'', JObj [(''count'', JNum (Fin 3)), (''average_rating'', JNum (Fin 4.5))])])])\<rparr>"

definition unconvertible_product :: fetch_response where
  \<comment> \<open>a product whose average rating is an object that cannot be converted to text\<close>
  "unconvertible_product =
     \<lparr>status = 200,
      body_text = ''{\"product\":{\"rating\":{\"average_rating\":{\"toString\":1}}}}'',
      body_json = Inr (JObj
        [(''product'', JObj
            [(''rating'', JObj
                [(''average_rating'', JObj [(''toString'', JNum (Fin 1))])])])])\<rparr>"

definition empty_object :: fetch_response where
  "empty_object = \<lparr>status = 200, body_text = ''{}'', body_json = Inr (JObj [])\<rparr>"

definition sample_reviews :: fetch_response where
  "sample_reviews =
     \<lparr>status = 200,
      body_text = ''{\"success\":true,\"reviews\":[{\"user_name\":\"Jane D.\",\"rating\":5,\"review_content\":\"Great!\"},{\"user_name\":\"bob_42\",\"rating\":4,\"review_content\":\"ok\"}]}'',
      body_json = Inr (JObj
        [(''success'', JBool True),
         (''reviews'', JArr
            [JObj [(''user_name'', JStr ''Jane D.''), (''rating'', JNum (Fin 5)),
                   (''review_content'', JStr ''Great!'')],
             JObj [(''user_name'', JStr ''bob_42''), (''rating'', JNum (Fin 4)),
                   (''review_content'', JStr ''ok'')]])])\<rparr>"

definition no_reviews :: fetch_response where
  "no_reviews =
     \<lparr>status = 200, body_text = ''{\"success\":true,\"reviews\":[]}'',
      body_json = Inr (JObj [(''success'', JBool True), (''reviews'', JArr [])])\<rparr>"

definition not_found :: fetch_response where
  "not_found =
     \<lparr>status = 404, body_text = ''{\"success\":false,\"message\":\"Not found\"}'',
      body_json = Inr (JObj [(''success'', JBool False), (''message'', JStr ''Not found'')])\<rparr>"

definition unavailable :: fetch_response where
  "unavailable =
     \<lparr>status = 503, body_text = ''Service Unavailable'',
      body_json = Inl ''Unexpected token S in JSON at position 0''\<rparr>"

definition sample_pf :: "jsval \<Rightarrow> number" where
  \<comment> \<open>stands for the text conversion in the samples, whose numbers are all JSON numbers\<close>
  "sample_pf v = NaN"

section \<open>Basic facts\<close>

lemma and_then_simps [simp]:
  "and_then (Inl m) f = Inl m"
  "and_then (Inr v) f = f v"
  by (simp_all add: and_then_def)

lemma respond_ok [simp]:
  "respond (issued, logged, Inr d) =
     \<lparr>res_status = 200, res_headers = [cache_control], res_body = d,
      calls = issued, console = logged\<rparr>"
  by (simp add: respond_def)

lemma respond_failed [simp]:
  "res_status (respond (issued, logged, Inl m)) = 500"
  "res_headers (respond (issued, logged, Inl m)) = []"
  "detail (respond (issued, logged, Inl m)) = JStr m"
  "calls (respond (issued, logged, Inl m)) = issued"
  "console (respond (issued, logged, Inl m)) =
     logged @ [ConsoleError (''Error in Vercel function: '' @ m)]"
  by (simp_all add: respond_def detail_def)

lemma respond_gumroad_js_ok [simp]:
  "respond_gumroad_js (issued, Inr d) =
     \<lparr>res_status = 200, res_headers = [cache_control_gumroad_js], res_body = d,
      calls = issued, console = []\<rparr>"
  by (simp add: respond_gumroad_js_def)

lemma respond_gumroad_js_failed [simp]:
  "res_status (respond_gumroad_js (issued, Inl m)) = 500"
  "res_headers (respond_gumroad_js (issued, Inl m)) = []"
  "detail (respond_gumroad_js (issued, Inl m)) = JStr m"
  "calls (respond_gumroad_js (issued, Inl m)) = issued"
  by (simp_all add: respond_gumroad_js_def detail_def)

lemma fetch_both_no_token:
  assumes "e ''GUMROAD_ACCESS_TOKEN'' = None \<or> e ''GUMROAD_ACCESS_TOKEN'' = Some []"
  shows "fetch_both e w =
     ([], [ConsoleError ''GUMROAD_ACCESS_TOKEN environment variable is not set.''],
      Inl ''Server configuration error: Missing API token.'')"
  using assms by (auto simp: fetch_both_def)

lemma promise_all2_simps [simp]:
  "promise_all2 s (Inr x) (Inr y) = Inr (x, y)"
  "promise_all2 s (Inr x) (Inl m) = Inl m"
  "promise_all2 s (Inl m) (Inr y) = Inl m"
  "promise_all2 s (Inl m1) (Inl m2) = Inl (if s then m2 else m1)"
  by (simp_all add: promise_all2_def)

lemma fetch_both_calls:
  assumes "product_fetch e w = Some a" and "reviews_fetch e w = Some b"
  shows "fetch_both e w = (issued_calls e, [], promise_all2 (second_settles_first w) a b)"
  using assms
  by (auto simp: fetch_both_def product_fetch_def reviews_fetch_def issued_calls_def Let_def
           split: option.splits if_splits)

lemma try_block_of_responses:
  assumes "product_fetch e w = Some (Inr productRes)"
    and "reviews_fetch e w = Some (Inr reviewsRes)"
  shows "try_block pf e w =
           (issued_calls e, fst (after_fetch pf productRes reviewsRes),
            snd (after_fetch pf productRes reviewsRes))"
  using fetch_both_calls [OF assms]
  by (simp add: try_block_def split: prod.splits)

lemma product_field_present:
  assumes "\<not> nullish productData" and "\<not> nullish (own_prop productData ''product'')"
  shows "product_field productData k = Inr (own_prop (own_prop productData ''product'') k)"
  using assms by (simp add: product_field_def get_prop_def)

lemma product_field_missing:
  assumes "nullish productData \<or> nullish (own_prop productData ''product'')"
  shows "\<exists>m. product_field productData k = Inl m"
  using assms by (auto simp: product_field_def get_prop_def)

lemma response_data_present:
  assumes "\<not> nullish productData" and "\<not> nullish (own_prop productData ''product'')"
  shows "response_data pf productData reviewsData =
     and_then (parseFloat pf
        (js_or (opt_chain (own_prop (own_prop productData ''product'') ''rating'')
                  ''average_rating'') (JNum (Fin 0)))) (\<lambda>rating_average.
     and_then (review_entries reviewsData) (\<lambda>reviews.
       Inr (JObj
         [(''sales_count'', own_prop (own_prop productData ''product'') ''sales_count''),
          (''rating_average'', JNum rating_average),
          (''rating_count'',
             js_or (opt_chain (own_prop (own_prop productData ''product'') ''rating'') ''count'')
               (JNum (Fin 0))),
          (''formatted_price'', own_prop (own_prop productData ''product'') ''formatted_price''),
          (''permalink'',
             js_or (own_prop (own_prop productData ''product'') ''permalink'') (JStr ''rdcvzn'')),
          (''reviews'', reviews)])))"
  by (simp add: response_data_def product_field_present [OF assms])

lemma response_data_converts:
  assumes "\<not> nullish productData" and "\<not> nullish (own_prop productData ''product'')"
    and "\<not> to_string_throws
           (js_or (opt_chain (own_prop (own_prop productData ''product'') ''rating'')
                     ''average_rating'') (JNum (Fin 0)))"
  shows "response_data pf productData reviewsData =
     and_then (review_entries reviewsData) (\<lambda>reviews.
       Inr (JObj
         [(''sales_count'', own_prop (own_prop productData ''product'') ''sales_count''),
          (''rating_average'',
             JNum (float_of pf
               (js_or (opt_chain (own_prop (own_prop productData ''product'') ''rating'')
                         ''average_rating'') (JNum (Fin 0))))),
          (''rating_count'',
             js_or (opt_chain (own_prop (own_prop productData ''product'') ''rating'') ''count'')
               (JNum (Fin 0))),
          (''formatted_price'', own_prop (own_prop productData ''product'') ''formatted_price''),
          (''permalink'',
             js_or (own_prop (own_prop productData ''product'') ''permalink'') (JStr ''rdcvzn'')),
          (''reviews'', reviews)]))"
  using assms(3) by (simp add: response_data_present [OF assms(1,2)] parseFloat_def)

lemma response_data_unconvertible:
  assumes "\<not> nullish productData" and "\<not> nullish (own_prop productData ''product'')"
    and "to_string_throws
           (js_or (opt_chain (own_prop (own_prop productData ''product'') ''rating'')
                     ''average_rating'') (JNum (Fin 0)))"
  shows "response_data pf productData reviewsData =
           Inl ''Cannot convert object to primitive value''"
  using assms(3) by (simp add: response_data_present [OF assms(1,2)] parseFloat_def)

lemma response_data_missing:
  assumes "nullish productData \<or> nullish (own_prop productData ''product'')"
  shows "\<exists>m. response_data pf productData reviewsData = Inl m"
proof -
  from product_field_missing [OF assms] obtain m
    where "product_field productData ''sales_count'' = Inl m" by blast
  then show ?thesis by (simp add: response_data_def)
qed

lemma review_entries_none:
  "review_entries (JObj [(''success'', JBool True), (''reviews'', JArr [])]) = Inr (JArr [])"
  by (simp add: review_entries_def get_prop_def nullish_def array_map_def)

lemma after_fetch_404:
  assumes "ok productRes" and "has_product productRes"
    and "\<not> to_string_throws (average_rating_of productRes)"
    and "status reviewsRes = 404"
  shows "\<exists>fields. after_fetch pf productRes reviewsRes =
            ([ConsoleLog no_reviews_note], Inr (JObj (fields @ [(''reviews'', JArr [])])))
          \<and> map_of fields ''reviews'' = None"
proof -
  from assms(2) obtain productData where pd: "body_json productRes = Inr productData"
    and nn: "\<not> nullish productData" "\<not> nullish (own_prop productData ''product'')"
    by (auto simp: has_product_def split: sum.splits)
  have cv: "\<not> to_string_throws
      (js_or (opt_chain (own_prop (own_prop productData ''product'') ''rating'')
                ''average_rating'') (JNum (Fin 0)))"
    using assms(3) by (simp add: average_rating_of_def product_of_def pd)
  have "\<not> ok reviewsRes" using assms(4) by (simp add: ok_def)
  then show ?thesis
    using assms(1,4) pd
    by (simp add: after_fetch_def response_data_converts [OF nn cv] review_entries_none)
qed

lemma sample_product_fetch: "product_fetch sample_env (upstream p r) = Some p"
  by (simp add: product_fetch_def sample_env_def upstream_def product_url_def product_id_def)

lemma sample_reviews_fetch: "reviews_fetch sample_env (upstream p r) = Some r"
  by (simp add: reviews_fetch_def sample_env_def upstream_def reviews_url_def product_id_def)

lemmas shared_defs =
  array_map_def replace_non_alnum_def get_prop_def opt_chain_def js_or_def parseFloat_def float_of_def
  nullish_def cannot_read_def quoted_def is_alnum_def show_nat.simps Let_def ok_def
  product_url_def reviews_url_def api_headers_def product_id_def product_field_def
  review_entries_def review_entry_def detail_def fetch_both_def product_error_def
  reviews_error_def respond_def sample_env_def upstream_def sample_pf_def

lemmas part_000_defs =
  handler_def try_block_def after_fetch_def response_data_def

lemmas part_001_defs =
  handler_part_001_def try_block_part_001_def after_fetch_part_001_def
  response_data_part_001_def

lemmas gumroad_js_defs =
  handler_gumroad_js_def try_block_gumroad_js_def response_data_gumroad_js_def
  gumroad_error_def respond_gumroad_js_def cache_control_gumroad_js_def

section \<open>A reviews response with status 404\<close>

text \<open>
  C1 (as amended). In the handler with defaults, when the product fetch returns a 2xx
  response whose body is JSON with a non-null \<open>product\<close> member whose average rating
  converts to text (it is not an object with a \<open>toString\<close> member of its own, nor an
  array that holds one), and the reviews fetch returns status 404, the handler responds
  with HTTP 200 and a body whose \<open>reviews\<close> member is the empty list; the 404 is logged
  as normal and not as an error.
\<close>

theorem reviews_404_gives_empty_reviews:
  assumes "product_fetch e w = Some (Inr productRes)" and "ok productRes"
    and "has_product productRes"
    and "\<not> to_string_throws (average_rating_of productRes)"
    and "reviews_fetch e w = Some (Inr reviewsRes)" and "status reviewsRes = 404"
  shows "res_status (handler pf e w request) = 200
       \<and> own_prop (res_body (handler pf e w request)) ''reviews'' = JArr []
       \<and> console (handler pf e w request) = [ConsoleLog no_reviews_note]"
proof -
  have t: "try_block pf e w =
      (issued_calls e, fst (after_fetch pf productRes reviewsRes),
       snd (after_fetch pf productRes reviewsRes))"
    by (rule try_block_of_responses [OF assms(1,5)])
  from after_fetch_404 [OF assms(2,3,4,6)] obtain fields where
    a: "after_fetch pf productRes reviewsRes =
          ([ConsoleLog no_reviews_note], Inr (JObj (fields @ [(''reviews'', JArr [])])))"
    and f: "map_of fields ''reviews'' = None"
    by blast
  show ?thesis
    unfolding handler_def t a using f by (simp add: map_add_def)
qed

text \<open>
  The claim as first stated fails at three inputs. Next to a reviews response 404, the
  handler with defaults answers 500 to a product response 200 with body \<open>{}\<close>, since
  reading \<open>productData.product.sales_count\<close> throws, and to one whose average rating
  is the object \<open>{"toString":1}\<close>, since \<open>parseFloat\<close> throws on converting it to text.
  The handler without defaults answers 500 to any reviews response that is not 2xx, 404
  included.
\<close>

theorem reviews_404_counterexample:
  "res_status (handler sample_pf sample_env (upstream (Inr empty_object) (Inr not_found)) ()) = 500
   \<and> has_product unconvertible_product
   \<and> res_status (handler sample_pf sample_env
         (upstream (Inr unconvertible_product) (Inr not_found)) ()) = 500
   \<and> detail (handler sample_pf sample_env
         (upstream (Inr unconvertible_product) (Inr not_found)) ())
         = JStr ''Cannot convert object to primitive value''
   \<and> res_status (handler_part_001 sample_pf sample_env
         (upstream (Inr sample_product) (Inr not_found)) ()) = 500"
  by (simp add: shared_defs part_000_defs part_001_defs has_product_def sample_product_def
        empty_object_def unconvertible_product_def not_found_def)

theorem reviews_404_witness:
  "res_status (handler sample_pf sample_env (upstream (Inr sample_product) (Inr not_found)) ()) = 200
   \<and> own_prop (res_body (handler sample_pf sample_env
         (upstream (Inr sample_product) (Inr not_found)) ())) ''reviews'' = JArr []"
proof -
  have "product_fetch sample_env (upstream (Inr sample_product) (Inr not_found))
          = Some (Inr sample_product)"
    by (rule sample_product_fetch)
  moreover have "ok sample_product" by (simp add: ok_def sample_product_def)
  moreover have "has_product sample_product"
    by (simp add: has_product_def nullish_def sample_product_def)
  moreover have "\<not> to_string_throws (average_rating_of sample_product)"
    by (simp add: average_rating_of_def product_of_def opt_chain_def js_or_def nullish_def
          sample_product_def)
  moreover have "reviews_fetch sample_env (upstream (Inr sample_product) (Inr not_found))
          = Some (Inr not_found)"
    by (rule sample_reviews_fetch)
  moreover have "status not_found = 404" by (simp add: ok_def not_found_def)
  ultimately show ?thesis
    using reviews_404_gives_empty_reviews [of sample_env _ sample_product not_found sample_pf "()"]
    by blast
qed

section \<open>Upstream failures\<close>

lemma fetch_both_none:
  assumes "product_fetch e w = None"
  shows "fetch_both e w =
     ([], [ConsoleError ''GUMROAD_ACCESS_TOKEN environment variable is not set.''],
      Inl ''Server configuration error: Missing API token.'')"
  using assms
  by (auto simp: fetch_both_def product_fetch_def split: option.splits if_splits)

lemma fetches_together:
  "(product_fetch e w = None) = (reviews_fetch e w = None)"
  by (auto simp: product_fetch_def reviews_fetch_def split: option.splits if_splits)

lemma starts_with_append: "starts_with (w @ b) w"
  by (induction w) simp_all

lemma mentions_append: "mentions (a @ w @ b) w"
proof (induction a)
  case Nil
  show ?case by (cases "w @ b") (use starts_with_append [of w b] in auto)
next
  case (Cons c a)
  then show ?case by simp
qed

lemma product_error_embeds:
  "mentions (product_error r) (show_nat (status r))"
  "mentions (product_error r) (body_text r)"
proof -
  show "mentions (product_error r) (show_nat (status r))"
    unfolding product_error_def by (rule mentions_append)
  have "mentions ((''Gumroad Product API responded with status '' @ show_nat (status r)
          @ ''. Details: '') @ body_text r @ []) (body_text r)"
    by (rule mentions_append)
  then show "mentions (product_error r) (body_text r)"
    by (simp add: product_error_def)
qed

lemma reviews_error_embeds:
  "mentions (reviews_error r) (show_nat (status r))"
  "mentions (reviews_error r) (body_text r)"
proof -
  show "mentions (reviews_error r) (show_nat (status r))"
    unfolding reviews_error_def by (rule mentions_append)
  have "mentions ((''Gumroad Reviews API responded with status '' @ show_nat (status r)
          @ ''. Details: '') @ body_text r @ []) (body_text r)"
    by (rule mentions_append)
  then show "mentions (reviews_error r) (body_text r)"
    by (simp add: reviews_error_def)
qed

text \<open>
  C4 (as amended). When the product fetch returns a response whose status is not 2xx, both
  merging handlers respond with HTTP 500 whatever the reviews fetch does. When the
  reviews fetch returns a response too, of any status, the detail is the product error,
  which embeds the upstream status and body; when the reviews fetch rejects,
  \<open>Promise.all\<close> rejects and the detail is that rejection's message instead.
\<close>

theorem product_failure_is_reported:
  assumes "product_fetch e w = Some (Inr productRes)" and "\<not> ok productRes"
    and "reviews_fetch e w = Some reviewsOutcome"
  shows "res_status (handler pf e w request) = 500
       \<and> res_status (handler_part_001 pf e w request) = 500
       \<and> (case reviewsOutcome of
            Inr reviewsRes \<Rightarrow>
              detail (handler pf e w request) = JStr (product_error productRes)
              \<and> detail (handler_part_001 pf e w request) = JStr (product_error productRes)
          | Inl message \<Rightarrow>
              detail (handler pf e w request) = JStr message
              \<and> detail (handler_part_001 pf e w request) = JStr message)
       \<and> mentions (product_error productRes) (show_nat (status productRes))
       \<and> mentions (product_error productRes) (body_text productRes)"
proof (cases reviewsOutcome)
  case (Inl message)
  with fetch_both_calls [OF assms(1,3)]
  have "fetch_both e w = (issued_calls e, [], Inl message)" by simp
  then show ?thesis
    using Inl product_error_embeds [of productRes]
    by (simp add: handler_def handler_part_001_def try_block_def try_block_part_001_def)
next
  case (Inr reviewsRes)
  with fetch_both_calls [OF assms(1,3)]
  have "fetch_both e w = (issued_calls e, [], Inr (productRes, reviewsRes))" by simp
  then show ?thesis
    using Inr assms(2) product_error_embeds [of productRes]
    by (simp add: handler_def handler_part_001_def try_block_def try_block_part_001_def
          after_fetch_def after_fetch_part_001_def)
qed

text \<open>
  The claim as first stated fails when the reviews fetch rejects: the product response
  503 is never looked at, and the detail carries neither its status nor its body.
\<close>

theorem product_failure_counterexample:
  "res_status (handler sample_pf sample_env
       (upstream (Inr unavailable) (Inl ''fetch failed'')) ()) = 500
   \<and> detail (handler sample_pf sample_env
       (upstream (Inr unavailable) (Inl ''fetch failed'')) ()) = JStr ''fetch failed''
   \<and> \<not> mentions ''fetch failed'' ''503''
   \<and> \<not> mentions ''fetch failed'' ''Service Unavailable''"
  by (simp add: shared_defs part_000_defs unavailable_def)

theorem product_failure_witness:
  "res_status (handler sample_pf sample_env
       (upstream (Inr unavailable) (Inr sample_reviews)) ()) = 500
   \<and> detail (handler sample_pf sample_env (upstream (Inr unavailable) (Inr sample_reviews)) ())
       = JStr ''Gumroad Product API responded with status 503. Details: Service Unavailable''"
proof -
  have "product_fetch sample_env (upstream (Inr unavailable) (Inr sample_reviews))
          = Some (Inr unavailable)"
    by (rule sample_product_fetch)
  moreover have "\<not> ok unavailable" by (simp add: ok_def unavailable_def)
  moreover have "reviews_fetch sample_env (upstream (Inr unavailable) (Inr sample_reviews))
          = Some (Inr sample_reviews)"
    by (rule sample_reviews_fetch)
  moreover have "product_error unavailable
          = ''Gumroad Product API responded with status 503. Details: Service Unavailable''"
    by (simp add: product_error_def show_nat.simps unavailable_def)
  ultimately show ?thesis
    using product_failure_is_reported [of sample_env _ unavailable "Inr sample_reviews"
        sample_pf "()"]
    by simp
qed

text \<open>
  C5 (as amended). When the reviews fetch returns a status that is neither 2xx nor 404,
  the handler with defaults responds with HTTP 500. The detail embeds the status and
  body of the reviews response when the product response is 2xx, is the product error
  when the product response is not 2xx, and is the rejection's message when the product
  fetch rejects.
\<close>

theorem reviews_failure_is_reported:
  assumes "reviews_fetch e w = Some (Inr reviewsRes)" and "\<not> ok reviewsRes"
    and "status reviewsRes \<noteq> 404" and "product_fetch e w = Some productOutcome"
  shows "res_status (handler pf e w request) = 500
       \<and> (case productOutcome of
            Inl message \<Rightarrow> detail (handler pf e w request) = JStr message
          | Inr productRes \<Rightarrow>
              detail (handler pf e w request) =
                JStr (if ok productRes then reviews_error reviewsRes
                      else product_error productRes))
       \<and> mentions (reviews_error reviewsRes) (show_nat (status reviewsRes))
       \<and> mentions (reviews_error reviewsRes) (body_text reviewsRes)"
proof (cases productOutcome)
  case (Inl message)
  with fetch_both_calls [OF assms(4,1)]
  have "fetch_both e w = (issued_calls e, [], Inl message)" by simp
  then show ?thesis
    using Inl reviews_error_embeds [of reviewsRes]
    by (simp add: handler_def try_block_def)
next
  case (Inr productRes)
  with fetch_both_calls [OF assms(4,1)]
  have "fetch_both e w = (issued_calls e, [], Inr (productRes, reviewsRes))" by simp
  then show ?thesis
    using Inr assms(2,3) reviews_error_embeds [of reviewsRes]
    by (simp add: handler_def try_block_def after_fetch_def)
qed

text \<open>
  The claim as first stated fails when the product fetch rejects: the detail is the
  rejection's message and embeds no upstream status or body.
\<close>

theorem reviews_failure_counterexample:
  "res_status (handler sample_pf sample_env
       (upstream (Inl ''fetch failed'') (Inr unavailable)) ()) = 500
   \<and> detail (handler sample_pf sample_env
       (upstream (Inl ''fetch failed'') (Inr unavailable)) ()) = JStr ''fetch failed''
   \<and> \<not> mentions ''fetch failed'' ''503''
   \<and> \<not> mentions ''fetch failed'' ''Service Unavailable''"
  by (simp add: shared_defs part_000_defs unavailable_def)

theorem reviews_failure_witness:
  "res_status (handler sample_pf sample_env
       (upstream (Inr sample_product) (Inr unavailable)) ()) = 500
   \<and> detail (handler sample_pf sample_env (upstream (Inr sample_product) (Inr unavailable)) ())
       = JStr ''Gumroad Reviews API responded with status 503. Details: Service Unavailable''"
proof -
  have "reviews_fetch sample_env (upstream (Inr sample_product) (Inr unavailable))
          = Some (Inr unavailable)"
    by (rule sample_reviews_fetch)
  moreover have "\<not> ok unavailable" by (simp add: ok_def unavailable_def)
  moreover have "status unavailable \<noteq> 404" by (simp add: ok_def unavailable_def)
  moreover have "product_fetch sample_env (upstream (Inr sample_product) (Inr unavailable))
          = Some (Inr sample_product)"
    by (rule sample_product_fetch)
  moreover have "ok sample_product" by (simp add: ok_def sample_product_def)
  moreover have "reviews_error unavailable
          = ''Gumroad Reviews API responded with status 503. Details: Service Unavailable''"
    by (simp add: reviews_error_def show_nat.simps unavailable_def)
  ultimately show ?thesis
    using reviews_failure_is_reported [of sample_env _ unavailable "Inr sample_product"
        sample_pf "()"]
    by simp
qed

section \<open>A missing credential\<close>

lemma try_block_no_token:
  assumes "e ''GUMROAD_ACCESS_TOKEN'' = None \<or> e ''GUMROAD_ACCESS_TOKEN'' = Some []"
  shows "try_block pf e w =
     ([], [ConsoleError ''GUMROAD_ACCESS_TOKEN environment variable is not set.''],
      Inl ''Server configuration error: Missing API token.'')"
    and "try_block_part_001 pf e w =
     ([], [ConsoleError ''GUMROAD_ACCESS_TOKEN environment variable is not set.''],
      Inl ''Server configuration error: Missing API token.'')"
    and "try_block_gumroad_js pf e w =
     ([], Inl ''GUMROAD_ACCESS_TOKEN environment variable is not set.'')"
  using assms fetch_both_no_token [of e w]
  by (auto simp: try_block_def try_block_part_001_def try_block_gumroad_js_def)

text \<open>
  C3 (as amended). When the credential is absent (the variable is unset, or set to the
  empty string), each handler responds with HTTP 500 and issues no outbound call. The
  detail of the two merging handlers is \<open>Server configuration error: Missing API
  token.\<close>, which mentions configuration; the detail of the product-only handler is
  \<open>GUMROAD_ACCESS_TOKEN environment variable is not set.\<close>
\<close>

theorem missing_credential_is_a_configuration_error:
  assumes "e ''GUMROAD_ACCESS_TOKEN'' = None \<or> e ''GUMROAD_ACCESS_TOKEN'' = Some []"
  shows "res_status (handler pf e w request) = 500
       \<and> detail (handler pf e w request)
            = JStr ''Server configuration error: Missing API token.''
       \<and> mentions ''Server configuration error: Missing API token.'' ''configuration''
       \<and> calls (handler pf e w request) = []
       \<and> handler_part_001 pf e w request = handler pf e w request
       \<and> res_status (handler_gumroad_js pf e w request) = 500
       \<and> detail (handler_gumroad_js pf e w request)
            = JStr ''GUMROAD_ACCESS_TOKEN environment variable is not set.''
       \<and> calls (handler_gumroad_js pf e w request) = []"
proof -
  have "mentions ''Server configuration error: Missing API token.'' ''configuration''"
    by simp
  then show ?thesis
    unfolding handler_def handler_part_001_def handler_gumroad_js_def
      try_block_no_token [of e, OF assms]
    by simp
qed

text \<open>
  The claim as first stated fails on the product-only handler, whose detail names the
  variable and does not contain the word.
\<close>

theorem missing_credential_counterexample:
  "res_status (handler_gumroad_js sample_pf (\<lambda>k. None)
      (upstream (Inr sample_product) (Inr sample_reviews)) ()) = 500
   \<and> detail (handler_gumroad_js sample_pf (\<lambda>k. None)
      (upstream (Inr sample_product) (Inr sample_reviews)) ())
        = JStr ''GUMROAD_ACCESS_TOKEN environment variable is not set.''
   \<and> \<not> mentions ''GUMROAD_ACCESS_TOKEN environment variable is not set.'' ''configuration''"
  by (simp add: handler_gumroad_js_def try_block_gumroad_js_def)

theorem missing_credential_witness:
  "res_status (handler sample_pf (\<lambda>k. None)
      (upstream (Inr sample_product) (Inr sample_reviews)) ()) = 500
   \<and> detail (handler sample_pf (\<lambda>k. None)
      (upstream (Inr sample_product) (Inr sample_reviews)) ())
        = JStr ''Server configuration error: Missing API token.''
   \<and> calls (handler sample_pf (\<lambda>k. None)
      (upstream (Inr sample_product) (Inr sample_reviews)) ()) = []"
  using missing_credential_is_a_configuration_error [of "\<lambda>k. None" sample_pf
      "upstream (Inr sample_product) (Inr sample_reviews)" "()"]
  by simp

section \<open>The cache-control header\<close>

lemma respond_by_result:
  "res_status (respond t) = (if isl (snd (snd t)) then 500 else 200)"
  "res_headers (respond t) = (if isl (snd (snd t)) then [] else [cache_control])"
  by (cases t; cases "snd (snd t)"; simp)+

lemma respond_gumroad_js_by_result:
  "res_status (respond_gumroad_js t) = (if isl (snd t) then 500 else 200)"
  "res_headers (respond_gumroad_js t) = (if isl (snd t) then [] else [cache_control_gumroad_js])"
  by (cases t; cases "snd t"; simp)+

text \<open>
  C10. A response with status 500 carries no header set by the handler, so no
  \<open>Cache-Control\<close>: each of the three handlers sets the header only on the path that
  ends in status 200.
\<close>

theorem failure_carries_no_cache_control:
  "(res_status (handler pf e w request) = 500
      \<longrightarrow> res_headers (handler pf e w request) = [])
   \<and> (res_status (handler_part_001 pf e w request) = 500
      \<longrightarrow> res_headers (handler_part_001 pf e w request) = [])
   \<and> (res_status (handler_gumroad_js pf e w request) = 500
      \<longrightarrow> res_headers (handler_gumroad_js pf e w request) = [])"
  by (simp add: handler_def handler_part_001_def handler_gumroad_js_def
        respond_by_result respond_gumroad_js_by_result)

theorem failure_carries_no_cache_control_witness:
  "res_status (handler sample_pf sample_env
      (upstream (Inr unavailable) (Inr sample_reviews)) ()) = 500
   \<and> res_headers (handler sample_pf sample_env
      (upstream (Inr unavailable) (Inr sample_reviews)) ()) = []"
proof -
  have "res_status (handler sample_pf sample_env
      (upstream (Inr unavailable) (Inr sample_reviews)) ()) = 500"
    by (simp add: shared_defs part_000_defs sample_reviews_def unavailable_def)
  then show ?thesis
    using failure_carries_no_cache_control [of sample_pf sample_env
        "upstream (Inr unavailable) (Inr sample_reviews)" "()"]
    by blast
qed

section \<open>Full success\<close>

lemma review_entry_result:
  assumes "review_entry review = Inr entry"
  shows "\<exists>name. own_prop review ''user_name'' = JStr name
           \<and> entry = JObj [(''name'', JStr name), (''rating'', own_prop review ''rating''),
                           (''content'', own_prop review ''review_content''),
                           (''avatar_id'', JStr (filter is_alnum name))]"
proof (cases "nullish review")
  case True
  with assms show ?thesis by (simp add: review_entry_def get_prop_def)
next
  case False
  with assms show ?thesis
    by (cases "own_prop review ''user_name''")
       (auto simp: review_entry_def get_prop_def replace_non_alnum_def nullish_def)
qed

lemma review_entry_succeeds: "(\<not> isl (review_entry review)) = names_reviewer review"
proof (cases "nullish review")
  case True
  then show ?thesis
    by (auto simp: review_entry_def get_prop_def names_reviewer_def nullish_def)
next
  case False
  then show ?thesis
    by (cases "own_prop review ''user_name''")
       (auto simp: review_entry_def get_prop_def replace_non_alnum_def nullish_def
          names_reviewer_def)
qed

lemma isl_case_Inr:
  "isl (case r of Inl m \<Rightarrow> Inl m | Inr y \<Rightarrow> Inr (g y)) = isl r"
  by (cases r) simp_all

lemma map_result_succeeds:
  "(\<not> isl (map_result f xs)) = list_all (\<lambda>x. \<not> isl (f x)) xs"
  by (induction xs) (auto split: sum.splits)

lemma review_entries_succeeds:
  "(\<not> isl (review_entries reviewsData)) =
     (case own_prop reviewsData ''reviews'' of
        JArr xs \<Rightarrow> list_all names_reviewer xs
      | _ \<Rightarrow> False)"
proof (cases "nullish reviewsData")
  case True
  then show ?thesis by (auto simp: review_entries_def get_prop_def nullish_def)
next
  case False
  then show ?thesis
    by (cases "own_prop reviewsData ''reviews''")
       (simp_all add: review_entries_def get_prop_def array_map_def nullish_def
          isl_case_Inr map_result_succeeds review_entry_succeeds)
qed

lemma response_data_succeeds:
  "(\<not> isl (response_data pf productData reviewsData)) =
     (\<not> nullish productData \<and> \<not> nullish (own_prop productData ''product'')
      \<and> \<not> to_string_throws
            (js_or (opt_chain (own_prop (own_prop productData ''product'') ''rating'')
                      ''average_rating'') (JNum (Fin 0)))
      \<and> \<not> isl (review_entries reviewsData))"
proof (cases "nullish productData \<or> nullish (own_prop productData ''product'')")
  case True
  from response_data_missing [OF this, of pf reviewsData] obtain m
    where "response_data pf productData reviewsData = Inl m" by blast
  then show ?thesis using True by auto
next
  case False
  then have nn: "\<not> nullish productData" "\<not> nullish (own_prop productData ''product'')"
    by simp_all
  show ?thesis
  proof (cases "to_string_throws
      (js_or (opt_chain (own_prop (own_prop productData ''product'') ''rating'')
                ''average_rating'') (JNum (Fin 0)))")
    case True
    then show ?thesis by (simp add: response_data_unconvertible [OF nn True])
  next
    case cv: False
    show ?thesis
      by (cases "review_entries reviewsData")
         (simp_all add: response_data_converts [OF nn cv] nn cv)
  qed
qed

lemma after_fetch_succeeds_ok:
  assumes "ok productRes"
  shows "(\<not> isl (snd (after_fetch pf productRes reviewsRes))) =
     (has_product productRes \<and> \<not> to_string_throws (average_rating_of productRes)
      \<and> (if ok reviewsRes then has_reviews reviewsRes else status reviewsRes = 404))"
proof (cases "ok reviewsRes")
  case True
  show ?thesis
  proof (cases "body_json reviewsRes")
    case (Inl m)
    then show ?thesis using assms True by (simp add: after_fetch_def has_reviews_def)
  next
    case rd: (Inr reviewsData)
    show ?thesis
    proof (cases "body_json productRes")
      case (Inl m)
      then show ?thesis using assms True rd by (simp add: after_fetch_def has_product_def)
    next
      case (Inr productData)
      then show ?thesis
        using assms True rd
        by (auto simp: after_fetch_def has_product_def has_reviews_def average_rating_of_def
              product_of_def response_data_succeeds review_entries_succeeds)
    qed
  qed
next
  case False
  show ?thesis
  proof (cases "body_json productRes")
    case (Inl m)
    then show ?thesis using assms False by (simp add: after_fetch_def has_product_def)
  next
    case (Inr productData)
    then show ?thesis
      using assms False
      by (auto simp: after_fetch_def has_product_def average_rating_of_def product_of_def
            response_data_succeeds review_entries_none)
  qed
qed

lemma after_fetch_succeeds:
  "(\<not> isl (snd (after_fetch pf productRes reviewsRes))) =
     (ok productRes \<and> has_product productRes
      \<and> \<not> to_string_throws (average_rating_of productRes)
      \<and> (if ok reviewsRes then has_reviews reviewsRes else status reviewsRes = 404))"
proof (cases "ok productRes")
  case True
  then show ?thesis by (simp add: after_fetch_succeeds_ok)
next
  case False
  then show ?thesis by (simp add: after_fetch_def)
qed

lemma try_block_result:
  "snd (snd (try_block pf e w)) =
     (case product_fetch e w of
        None \<Rightarrow> Inl ''Server configuration error: Missing API token.''
      | Some a \<Rightarrow>
          (case reviews_fetch e w of
             None \<Rightarrow> Inl ''Server configuration error: Missing API token.''
           | Some b \<Rightarrow>
               (case promise_all2 (second_settles_first w) a b of
                  Inl m \<Rightarrow> Inl m
                | Inr (p, r) \<Rightarrow> snd (after_fetch pf p r))))"
proof (cases "product_fetch e w")
  case None
  then show ?thesis by (simp add: try_block_def fetch_both_none)
next
  case (Some a)
  then obtain b where b: "reviews_fetch e w = Some b"
    using fetches_together [of e w] by (cases "reviews_fetch e w") auto
  show ?thesis
    using Some b fetch_both_calls [OF Some b]
    by (simp add: try_block_def split: sum.splits prod.splits)
qed

lemma handler_succeeds:
  "(res_status (handler pf e w request) = 200) = fully_successful e w"
proof -
  have "(res_status (handler pf e w request) = 200) = (\<not> isl (snd (snd (try_block pf e w))))"
    by (simp add: handler_def respond_by_result)
  also have "\<dots> = fully_successful e w"
    unfolding try_block_result fully_successful_def
    by (auto simp: after_fetch_succeeds split: option.splits sum.splits)
  finally show ?thesis .
qed

lemma response_data_gumroad_js_succeeds:
  "(\<not> isl (response_data_gumroad_js pf productData)) =
     (\<not> nullish productData \<and> \<not> nullish (own_prop productData ''product'')
      \<and> \<not> nullish (own_prop (own_prop productData ''product'') ''rating'')
      \<and> \<not> to_string_throws
            (own_prop (own_prop (own_prop productData ''product'') ''rating'')
               ''average_rating''))"
proof (cases "nullish productData \<or> nullish (own_prop productData ''product'')")
  case True
  from product_field_missing [OF this, of "''sales_count''"] obtain m
    where "product_field productData ''sales_count'' = Inl m" by blast
  then show ?thesis using True by (auto simp: response_data_gumroad_js_def)
next
  case False
  then have nn: "\<not> nullish productData" "\<not> nullish (own_prop productData ''product'')"
    by simp_all
  show ?thesis
    by (simp add: response_data_gumroad_js_def product_field_present [OF nn] nn get_prop_def
          parseFloat_def)
qed

lemma try_block_gumroad_js_result:
  "snd (try_block_gumroad_js pf e w) =
     (case product_fetch_gumroad_js e w of
        None \<Rightarrow> Inl ''GUMROAD_ACCESS_TOKEN environment variable is not set.''
      | Some a \<Rightarrow>
          and_then a (\<lambda>productRes.
            if \<not> ok productRes then Inl (gumroad_error productRes)
            else and_then (body_json productRes) (response_data_gumroad_js pf)))"
  by (simp add: try_block_gumroad_js_def product_fetch_gumroad_js_def Let_def
        split: option.splits)

lemma handler_gumroad_js_succeeds:
  "(res_status (handler_gumroad_js pf e w request) = 200) = fully_successful_gumroad_js e w"
proof -
  have "(res_status (handler_gumroad_js pf e w request) = 200)
          = (\<not> isl (snd (try_block_gumroad_js pf e w)))"
    by (simp add: handler_gumroad_js_def respond_gumroad_js_by_result)
  also have "\<dots> = fully_successful_gumroad_js e w"
    unfolding try_block_gumroad_js_result fully_successful_gumroad_js_def
    by (auto simp: response_data_gumroad_js_succeeds has_product_def product_of_def
          split: option.splits sum.splits)
  finally show ?thesis .
qed

text \<open>
  A product whose average rating cannot be converted to text is a failure in both
  handlers, although the two responses are 2xx and carry a product, a rating object and
  reviews: \<open>parseFloat\<close> throws inside the try block, before the header is set.
\<close>

lemma unconvertible_rating_fails:
  "\<not> fully_successful sample_env (upstream (Inr unconvertible_product) (Inr sample_reviews))"
  "\<not> fully_successful_gumroad_js sample_env
       (upstream (Inr unconvertible_product) (Inr sample_reviews))"
  "res_status (handler sample_pf sample_env
      (upstream (Inr unconvertible_product) (Inr sample_reviews)) ()) = 500"
  "res_headers (handler sample_pf sample_env
      (upstream (Inr unconvertible_product) (Inr sample_reviews)) ()) = []"
  "res_status (handler_gumroad_js sample_pf sample_env
      (upstream (Inr unconvertible_product) (Inr sample_reviews)) ()) = 500"
  "res_headers (handler_gumroad_js sample_pf sample_env
      (upstream (Inr unconvertible_product) (Inr sample_reviews)) ()) = []"
  by (simp_all add: shared_defs part_000_defs gumroad_js_defs fully_successful_def
        fully_successful_gumroad_js_def product_fetch_def product_fetch_gumroad_js_def
        reviews_fetch_def has_product_def average_rating_of_def product_of_def
        unconvertible_product_def sample_reviews_def)

text \<open>
  C7 (as amended). An execution is fully successful when both fetches return, the
  product response is 2xx and carries a product whose average rating converts to text,
  and the reviews response is 2xx and carries reviews or is a 404 (the product-only
  handler asks for the product response alone, with a rating object); these are exactly
  the executions that end in status 200. Every fully successful execution of the handler
  with defaults responds with HTTP 200 and the header \<open>Cache-Control: s-maxage=900,
  stale-while-revalidate\<close>; every fully successful execution of the product-only handler
  responds with HTTP 200 and \<open>Cache-Control: s-maxage=3600, stale-while-revalidate\<close>.
\<close>

theorem success_sets_cache_control:
  "(fully_successful e w \<longrightarrow>
      res_status (handler pf e w request) = 200
      \<and> res_headers (handler pf e w request)
           = [(''Cache-Control'', ''s-maxage=900, stale-while-revalidate'')])
   \<and> (fully_successful_gumroad_js e w \<longrightarrow>
      res_status (handler_gumroad_js pf e w request) = 200
      \<and> res_headers (handler_gumroad_js pf e w request)
           = [(''Cache-Control'', ''s-maxage=3600, stale-while-revalidate'')])"
proof -
  have a: "res_status (handler pf e w request) = 200 \<Longrightarrow>
      res_headers (handler pf e w request)
        = [(''Cache-Control'', ''s-maxage=900, stale-while-revalidate'')]"
    by (simp add: handler_def respond_by_result cache_control_def split: if_splits)
  have b: "res_status (handler_gumroad_js pf e w request) = 200 \<Longrightarrow>
      res_headers (handler_gumroad_js pf e w request)
        = [(''Cache-Control'', ''s-maxage=3600, stale-while-revalidate'')]"
    by (simp add: handler_gumroad_js_def respond_gumroad_js_by_result
          cache_control_gumroad_js_def split: if_splits)
  show ?thesis
    using a b handler_succeeds [of pf e w request]
      handler_gumroad_js_succeeds [of pf e w request]
    by blast
qed

text \<open>
  The claim as first stated fails on the product-only handler, whose header advises a
  lifetime of 3600 seconds.
\<close>

theorem success_sets_cache_control_counterexample:
  "res_status (handler_gumroad_js sample_pf sample_env
      (upstream (Inr sample_product) (Inr sample_reviews)) ()) = 200
   \<and> res_headers (handler_gumroad_js sample_pf sample_env
      (upstream (Inr sample_product) (Inr sample_reviews)) ())
        = [(''Cache-Control'', ''s-maxage=3600, stale-while-revalidate'')]
   \<and> \<not> mentions ''s-maxage=3600, stale-while-revalidate'' ''s-maxage=900''"
  by (simp add: shared_defs gumroad_js_defs sample_product_def sample_reviews_def)

theorem success_sets_cache_control_witness:
  "fully_successful sample_env (upstream (Inr sample_product) (Inr sample_reviews))
   \<and> res_status (handler sample_pf sample_env
        (upstream (Inr sample_product) (Inr sample_reviews)) ()) = 200
   \<and> res_headers (handler sample_pf sample_env
        (upstream (Inr sample_product) (Inr sample_reviews)) ())
        = [(''Cache-Control'', ''s-maxage=900, stale-while-revalidate'')]
   \<and> fully_successful_gumroad_js sample_env (upstream (Inr sample_product) (Inr sample_reviews))
   \<and> res_status (handler_gumroad_js sample_pf sample_env
        (upstream (Inr sample_product) (Inr sample_reviews)) ()) = 200"
proof -
  have "fully_successful sample_env (upstream (Inr sample_product) (Inr sample_reviews))"
    by (simp add: fully_successful_def sample_product_fetch sample_reviews_fetch has_product_def
          has_reviews_def names_reviewer_def nullish_def ok_def average_rating_of_def
          product_of_def opt_chain_def js_or_def sample_product_def sample_reviews_def)
  moreover have "fully_successful_gumroad_js sample_env
      (upstream (Inr sample_product) (Inr sample_reviews))"
    by (simp add: fully_successful_gumroad_js_def product_fetch_gumroad_js_def product_of_def
          has_product_def nullish_def ok_def sample_env_def upstream_def product_url_def
          sample_product_def)
  ultimately show ?thesis
    using success_sets_cache_control [of sample_env
        "upstream (Inr sample_product) (Inr sample_reviews)" sample_pf "()"]
    by blast
qed

section \<open>Determinism\<close>

lemma issued_calls_cong:
  assumes "e1 ''GUMROAD_ACCESS_TOKEN'' = e2 ''GUMROAD_ACCESS_TOKEN''"
    and "e1 ''GUMROAD_PRODUCT_ID'' = e2 ''GUMROAD_PRODUCT_ID''"
  shows "issued_calls e1 = issued_calls e2"
proof -
  have "product_id e1 = product_id e2"
    using assms(2) by (simp add: product_id_def)
  then show ?thesis
    using assms(1) by (simp add: issued_calls_def split: option.splits)
qed

text \<open>
  C8. Two executions of the handler with defaults whose two configuration variables
  agree and whose product and reviews fetches return the same responses end in the same
  outcome, and in particular hand the same body to \<open>response.json\<close>: nothing else in the
  environment, in the inbound request, in the other answers of the network or in the
  order in which the fetches settle has any influence.
\<close>

theorem same_inputs_same_body:
  assumes "e1 ''GUMROAD_ACCESS_TOKEN'' = e2 ''GUMROAD_ACCESS_TOKEN''"
    and "e1 ''GUMROAD_PRODUCT_ID'' = e2 ''GUMROAD_PRODUCT_ID''"
    and "product_fetch e1 w1 = Some (Inr productRes)"
    and "product_fetch e2 w2 = Some (Inr productRes)"
    and "reviews_fetch e1 w1 = Some (Inr reviewsRes)"
    and "reviews_fetch e2 w2 = Some (Inr reviewsRes)"
  shows "res_body (handler pf e1 w1 request1) = res_body (handler pf e2 w2 request2)
       \<and> handler pf e1 w1 request1 = handler pf e2 w2 request2"
proof -
  have "try_block pf e1 w1 = try_block pf e2 w2"
    by (simp add: try_block_of_responses [OF assms(3,5)] try_block_of_responses [OF assms(4,6)]
          issued_calls_cong [OF assms(1,2)])
  then show ?thesis by (simp add: handler_def)
qed

theorem same_inputs_same_body_witness:
  "handler sample_pf sample_env (upstream (Inr sample_product) (Inr sample_reviews)) ()
     = handler sample_pf (sample_env(''VERCEL_REGION'' \<mapsto> ''iad1''))
         ((upstream (Inr sample_product) (Inr sample_reviews))\<lparr>second_settles_first := True\<rparr>)
         True"
proof -
  have "sample_env ''GUMROAD_ACCESS_TOKEN''
          = (sample_env(''VERCEL_REGION'' \<mapsto> ''iad1'')) ''GUMROAD_ACCESS_TOKEN''"
    by simp
  moreover have "sample_env ''GUMROAD_PRODUCT_ID''
          = (sample_env(''VERCEL_REGION'' \<mapsto> ''iad1'')) ''GUMROAD_PRODUCT_ID''"
    by simp
  moreover have "product_fetch sample_env (upstream (Inr sample_product) (Inr sample_reviews))
          = Some (Inr sample_product)"
    by (rule sample_product_fetch)
  moreover have "product_fetch (sample_env(''VERCEL_REGION'' \<mapsto> ''iad1''))
          ((upstream (Inr sample_product) (Inr sample_reviews))\<lparr>second_settles_first := True\<rparr>)
          = Some (Inr sample_product)"
    by (simp add: product_fetch_def sample_env_def upstream_def product_url_def product_id_def)
  moreover have "reviews_fetch sample_env (upstream (Inr sample_product) (Inr sample_reviews))
          = Some (Inr sample_reviews)"
    by (rule sample_reviews_fetch)
  moreover have "reviews_fetch (sample_env(''VERCEL_REGION'' \<mapsto> ''iad1''))
          ((upstream (Inr sample_product) (Inr sample_reviews))\<lparr>second_settles_first := True\<rparr>)
          = Some (Inr sample_reviews)"
    by (simp add: reviews_fetch_def sample_env_def upstream_def reviews_url_def product_id_def)
  ultimately show ?thesis
    using same_inputs_same_body [of sample_env "sample_env(''VERCEL_REGION'' \<mapsto> ''iad1'')"
        "upstream (Inr sample_product) (Inr sample_reviews)" sample_product
        "(upstream (Inr sample_product) (Inr sample_reviews))\<lparr>second_settles_first := True\<rparr>"
        sample_reviews sample_pf "()" True]
    by blast
qed

section \<open>The merged body\<close>

lemma review_entries_result:
  assumes "review_entries reviewsData = Inr v"
  shows "\<exists>xs ys. own_prop reviewsData ''reviews'' = JArr xs
           \<and> map_result review_entry xs = Inr ys \<and> v = JArr ys"
proof (cases "nullish reviewsData")
  case True
  with assms show ?thesis by (simp add: review_entries_def get_prop_def)
next
  case False
  with assms show ?thesis
    by (cases "own_prop reviewsData ''reviews''")
       (auto simp: review_entries_def get_prop_def array_map_def nullish_def
          split: sum.splits)
qed

lemma map_result_entries:
  assumes "map_result review_entry xs = Inr ys"
  shows "length ys = length xs
       \<and> (\<forall>i<length xs. \<exists>name. own_prop (xs ! i) ''user_name'' = JStr name
             \<and> ys ! i = JObj [(''name'', JStr name), (''rating'', own_prop (xs ! i) ''rating''),
                              (''content'', own_prop (xs ! i) ''review_content''),
                              (''avatar_id'', JStr (filter is_alnum name))])"
  using assms
proof (induction xs arbitrary: ys)
  case Nil
  then show ?case by simp
next
  case (Cons x xs)
  from Cons.prems obtain y ys' where y: "review_entry x = Inr y"
    and ys': "map_result review_entry xs = Inr ys'" and ys: "ys = y # ys'"
    by (auto split: sum.splits)
  from Cons.IH [OF ys'] review_entry_result [OF y] show ?case
    unfolding ys by (auto simp: nth_Cons split: nat.splits)
qed

lemma after_fetch_body:
  assumes "ok productRes" and "snd (after_fetch pf productRes reviewsRes) = Inr responseData"
  shows "\<exists>entries. responseData = JObj
          [(''sales_count'', own_prop (product_of productRes) ''sales_count''),
           (''rating_average'',
              JNum (float_of pf
                (js_or (opt_chain (own_prop (product_of productRes) ''rating'') ''average_rating'')
                   (JNum (Fin 0))))),
           (''rating_count'',
              js_or (opt_chain (own_prop (product_of productRes) ''rating'') ''count'')
                (JNum (Fin 0))),
           (''formatted_price'', own_prop (product_of productRes) ''formatted_price''),
           (''permalink'',
              js_or (own_prop (product_of productRes) ''permalink'') (JStr ''rdcvzn'')),
           (''reviews'', JArr entries)]
        \<and> map_result review_entry (if ok reviewsRes then reviews_of reviewsRes else [])
              = Inr entries"
proof -
  have "\<not> isl (snd (after_fetch pf productRes reviewsRes))"
    using assms(2) by simp
  then have hp: "has_product productRes"
    and hc: "\<not> to_string_throws (average_rating_of productRes)"
    and hr: "if ok reviewsRes then has_reviews reviewsRes else status reviewsRes = 404"
    by (simp_all add: after_fetch_succeeds)
  from hp obtain productData where pd: "body_json productRes = Inr productData"
    and nn: "\<not> nullish productData" "\<not> nullish (own_prop productData ''product'')"
    by (auto simp: has_product_def split: sum.splits)
  have po: "product_of productRes = own_prop productData ''product''"
    by (simp add: product_of_def pd)
  have cv: "\<not> to_string_throws
      (js_or (opt_chain (own_prop (own_prop productData ''product'') ''rating'')
                ''average_rating'') (JNum (Fin 0)))"
    using hc by (simp add: average_rating_of_def po)
  show ?thesis
  proof (cases "ok reviewsRes")
    case True
    with hr obtain reviewsData where rd: "body_json reviewsRes = Inr reviewsData"
      by (auto simp: has_reviews_def split: sum.splits)
    from assms True rd pd obtain v where v: "review_entries reviewsData = Inr v"
      and d: "response_data pf productData reviewsData = Inr responseData"
      by (cases "review_entries reviewsData")
         (auto simp: after_fetch_def response_data_converts [OF nn cv])
    from review_entries_result [OF v] obtain xs ys where
      xs: "own_prop reviewsData ''reviews'' = JArr xs"
      and ys: "map_result review_entry xs = Inr ys" and vy: "v = JArr ys"
      by blast
    have "reviews_of reviewsRes = xs" by (simp add: reviews_of_def rd xs)
    then show ?thesis
      using d v vy ys True po by (auto simp: response_data_converts [OF nn cv])
  next
    case False
    with hr have "status reviewsRes = 404" by simp
    then show ?thesis
      using assms False pd po
      by (auto simp: after_fetch_def response_data_converts [OF nn cv] review_entries_none)
  qed
qed

lemma success_body:
  assumes "product_fetch e w = Some (Inr productRes)"
    and "res_status (handler pf e w request) = 200"
  shows "\<exists>reviewsRes entries. reviews_fetch e w = Some (Inr reviewsRes)
        \<and> res_body (handler pf e w request) = JObj
          [(''sales_count'', own_prop (product_of productRes) ''sales_count''),
           (''rating_average'',
              JNum (float_of pf
                (js_or (opt_chain (own_prop (product_of productRes) ''rating'') ''average_rating'')
                   (JNum (Fin 0))))),
           (''rating_count'',
              js_or (opt_chain (own_prop (product_of productRes) ''rating'') ''count'')
                (JNum (Fin 0))),
           (''formatted_price'', own_prop (product_of productRes) ''formatted_price''),
           (''permalink'',
              js_or (own_prop (product_of productRes) ''permalink'') (JStr ''rdcvzn'')),
           (''reviews'', JArr entries)]
        \<and> map_result review_entry (if ok reviewsRes then reviews_of reviewsRes else [])
              = Inr entries"
proof -
  from assms(2) have fs: "fully_successful e w" by (simp add: handler_succeeds)
  with assms(1) obtain reviewsRes where r: "reviews_fetch e w = Some (Inr reviewsRes)"
    and okp: "ok productRes"
    by (auto simp: fully_successful_def split: option.splits sum.splits)
  have t: "try_block pf e w =
      (issued_calls e, fst (after_fetch pf productRes reviewsRes),
       snd (after_fetch pf productRes reviewsRes))"
    by (rule try_block_of_responses [OF assms(1) r])
  from assms(2) obtain responseData
    where d: "snd (after_fetch pf productRes reviewsRes) = Inr responseData"
    by (cases "snd (after_fetch pf productRes reviewsRes)") (simp_all add: handler_def t)
  from after_fetch_body [OF okp d] r d show ?thesis
    by (auto simp: handler_def t)
qed



section \<open>Defaults for optional members\<close>

text \<open>
  C2 (as amended). In the handler with defaults, when the product response is 2xx and
  its product has no rating object (the member is missing or \<open>null\<close>), the missing
  object is no failure: with a reviews response at hand, the handler responds with
  status 200 exactly when the reviews response is a 404 or a 2xx that carries reviews,
  and the body of every such 200 response has \<open>rating_average\<close> and \<open>rating_count\<close>
  equal to 0.
\<close>

theorem missing_rating_defaults_to_zero:
  assumes "product_fetch e w = Some (Inr productRes)" and "ok productRes"
    and "has_product productRes"
    and "nullish (own_prop (product_of productRes) ''rating'')"
    and "reviews_fetch e w = Some (Inr reviewsRes)"
  shows "(res_status (handler pf e w request) = 200)
           = (if ok reviewsRes then has_reviews reviewsRes else status reviewsRes = 404)
       \<and> (res_status (handler pf e w request) = 200 \<longrightarrow>
            own_prop (res_body (handler pf e w request)) ''rating_average'' = JNum (Fin 0)
            \<and> own_prop (res_body (handler pf e w request)) ''rating_count'' = JNum (Fin 0))"
proof -
  have "(res_status (handler pf e w request) = 200)
          = (if ok reviewsRes then has_reviews reviewsRes else status reviewsRes = 404)"
    using assms(1,2,3,4,5)
    by (simp add: handler_succeeds fully_successful_def average_rating_of_def opt_chain_def
          js_or_def)
  moreover have "own_prop (res_body (handler pf e w request)) ''rating_average'' = JNum (Fin 0)
      \<and> own_prop (res_body (handler pf e w request)) ''rating_count'' = JNum (Fin 0)"
    if "res_status (handler pf e w request) = 200"
  proof -
    from success_body [OF assms(1) that] obtain entries where
      "res_body (handler pf e w request) = JObj
          [(''sales_count'', own_prop (product_of productRes) ''sales_count''),
           (''rating_average'',
              JNum (float_of pf
                (js_or (opt_chain (own_prop (product_of productRes) ''rating'') ''average_rating'')
                   (JNum (Fin 0))))),
           (''rating_count'',
              js_or (opt_chain (own_prop (product_of productRes) ''rating'') ''count'')
                (JNum (Fin 0))),
           (''formatted_price'', own_prop (product_of productRes) ''formatted_price''),
           (''permalink'',
              js_or (own_prop (product_of productRes) ''permalink'') (JStr ''rdcvzn'')),
           (''reviews'', JArr entries)]"
      by blast
    then show ?thesis
      using assms(4) by (simp add: opt_chain_def js_or_def parseFloat_def float_of_def)
  qed
  ultimately show ?thesis by blast
qed

text \<open>
  The claim as first stated fails on the handler without defaults, which reads
  \<open>productData.product.rating.average_rating\<close> unguarded and answers 500.
\<close>

theorem missing_rating_counterexample:
  "res_status (handler_part_001 sample_pf sample_env
      (upstream (Inr unrated_product) (Inr no_reviews)) ()) = 500
   \<and> detail (handler_part_001 sample_pf sample_env
      (upstream (Inr unrated_product) (Inr no_reviews)) ())
        = JStr (cannot_read Undefined ''average_rating'')"
  by (simp add: shared_defs part_001_defs unrated_product_def no_reviews_def)

theorem missing_rating_witness:
  "res_status (handler sample_pf sample_env
      (upstream (Inr unrated_product) (Inr no_reviews)) ()) = 200
   \<and> own_prop (res_body (handler sample_pf sample_env
      (upstream (Inr unrated_product) (Inr no_reviews)) ())) ''rating_average'' = JNum (Fin 0)
   \<and> own_prop (res_body (handler sample_pf sample_env
      (upstream (Inr unrated_product) (Inr no_reviews)) ())) ''rating_count'' = JNum (Fin 0)"
proof -
  let ?w = "upstream (Inr unrated_product) (Inr no_reviews)"
  have "product_fetch sample_env ?w = Some (Inr unrated_product)"
    by (rule sample_product_fetch)
  moreover have "ok unrated_product" by (simp add: ok_def unrated_product_def)
  moreover have "has_product unrated_product"
    by (simp add: has_product_def nullish_def unrated_product_def)
  moreover have "nullish (own_prop (product_of unrated_product) ''rating'')"
    by (simp add: product_of_def nullish_def unrated_product_def)
  moreover have "reviews_fetch sample_env ?w = Some (Inr no_reviews)"
    by (rule sample_reviews_fetch)
  moreover have "ok no_reviews" and "has_reviews no_reviews"
    by (simp_all add: ok_def has_reviews_def no_reviews_def)
  ultimately show ?thesis
    using missing_rating_defaults_to_zero [of sample_env ?w unrated_product no_reviews
        sample_pf "()"]
    by simp
qed

text \<open>
  C9 (as amended). In the handler with defaults, when the product response is 2xx and
  its product has no permalink (the member is missing, \<open>null\<close>, empty or otherwise
  falsy), the body of a 200 response has \<open>permalink\<close> equal to \<open>rdcvzn\<close>.
\<close>

theorem missing_permalink_defaults:
  assumes "product_fetch e w = Some (Inr productRes)" and "ok productRes"
    and "has_product productRes"
    and "\<not> truthy (own_prop (product_of productRes) ''permalink'')"
    and "res_status (handler pf e w request) = 200"
  shows "own_prop (res_body (handler pf e w request)) ''permalink'' = JStr ''rdcvzn''"
proof -
  from success_body [OF assms(1,5)] obtain entries where
    "res_body (handler pf e w request) = JObj
        [(''sales_count'', own_prop (product_of productRes) ''sales_count''),
         (''rating_average'',
            JNum (float_of pf
              (js_or (opt_chain (own_prop (product_of productRes) ''rating'') ''average_rating'')
                 (JNum (Fin 0))))),
         (''rating_count'',
            js_or (opt_chain (own_prop (product_of productRes) ''rating'') ''count'')
              (JNum (Fin 0))),
         (''formatted_price'', own_prop (product_of productRes) ''formatted_price''),
         (''permalink'',
            js_or (own_prop (product_of productRes) ''permalink'') (JStr ''rdcvzn'')),
         (''reviews'', JArr entries)]"
    by blast
  then show ?thesis
    using assms(4) by (simp add: js_or_def)
qed

text \<open>
  The claim as first stated fails on the handler without defaults, which passes the
  upstream member on as it is: the body of its 200 response has no permalink.
\<close>

theorem missing_permalink_counterexample:
  "res_status (handler_part_001 sample_pf sample_env
      (upstream (Inr unlinked_product) (Inr no_reviews)) ()) = 200
   \<and> own_prop (res_body (handler_part_001 sample_pf sample_env
      (upstream (Inr unlinked_product) (Inr no_reviews)) ())) ''permalink'' = Undefined"
  by (simp add: shared_defs part_001_defs unlinked_product_def no_reviews_def)

theorem missing_permalink_witness:
  "res_status (handler sample_pf sample_env
      (upstream (Inr unlinked_product) (Inr no_reviews)) ()) = 200
   \<and> own_prop (res_body (handler sample_pf sample_env
      (upstream (Inr unlinked_product) (Inr no_reviews)) ())) ''permalink'' = JStr ''rdcvzn''"
proof -
  let ?w = "upstream (Inr unlinked_product) (Inr no_reviews)"
  have "product_fetch sample_env ?w = Some (Inr unlinked_product)"
    by (rule sample_product_fetch)
  moreover have "ok unlinked_product" by (simp add: ok_def unlinked_product_def)
  moreover have "has_product unlinked_product"
    by (simp add: has_product_def nullish_def unlinked_product_def)
  moreover have "\<not> truthy (own_prop (product_of unlinked_product) ''permalink'')"
    by (simp add: product_of_def nullish_def unlinked_product_def)
  moreover have "fully_successful sample_env ?w"
    by (simp add: fully_successful_def sample_product_fetch sample_reviews_fetch has_product_def
          has_reviews_def names_reviewer_def nullish_def ok_def average_rating_of_def
          product_of_def opt_chain_def js_or_def unlinked_product_def no_reviews_def)
  then have "res_status (handler sample_pf sample_env ?w ()) = 200"
    by (simp add: handler_succeeds)
  ultimately show ?thesis
    using missing_permalink_defaults [of sample_env ?w unlinked_product sample_pf "()"]
    by simp
qed

section \<open>The merged body of the handler without defaults\<close>

text \<open>
  The handler without defaults builds the same review entries and copies the five
  product members without any fallback.
\<close>

lemma try_block_part_001_of_responses:
  assumes "product_fetch e w = Some (Inr productRes)"
    and "reviews_fetch e w = Some (Inr reviewsRes)"
  shows "try_block_part_001 pf e w =
           (issued_calls e, [], after_fetch_part_001 pf productRes reviewsRes)"
  using fetch_both_calls [OF assms] by (simp add: try_block_part_001_def)

lemma response_data_part_001_result:
  assumes "response_data_part_001 pf productData reviewsData = Inr responseData"
  shows "\<exists>v. review_entries reviewsData = Inr v
       \<and> responseData = JObj
          [(''sales_count'', own_prop (own_prop productData ''product'') ''sales_count''),
           (''rating_average'',
              JNum (float_of pf
                (own_prop (own_prop (own_prop productData ''product'') ''rating'')
                   ''average_rating''))),
           (''rating_count'',
              own_prop (own_prop (own_prop productData ''product'') ''rating'') ''count''),
           (''formatted_price'', own_prop (own_prop productData ''product'') ''formatted_price''),
           (''permalink'', own_prop (own_prop productData ''product'') ''permalink''),
           (''reviews'', v)]"
proof (cases "nullish productData \<or> nullish (own_prop productData ''product'')")
  case True
  from product_field_missing [OF this, of "''sales_count''"] obtain m
    where "product_field productData ''sales_count'' = Inl m" by blast
  with assms show ?thesis by (simp add: response_data_part_001_def)
next
  case False
  then have nn: "\<not> nullish productData" "\<not> nullish (own_prop productData ''product'')"
    by simp_all
  show ?thesis
  proof (cases "nullish (own_prop (own_prop productData ''product'') ''rating'')")
    case True
    with assms show ?thesis
      by (simp add: response_data_part_001_def product_field_present [OF nn] get_prop_def)
  next
    case False
    with assms show ?thesis
      by (cases "review_entries reviewsData";
          cases "to_string_throws
            (own_prop (own_prop (own_prop productData ''product'') ''rating'')
               ''average_rating'')")
         (simp_all add: response_data_part_001_def product_field_present [OF nn] get_prop_def
            parseFloat_def)
  qed
qed

lemma merged_body_part_001:
  assumes "product_fetch e w = Some (Inr productRes)"
    and "reviews_fetch e w = Some (Inr reviewsRes)"
    and "res_status (handler_part_001 pf e w request) = 200"
  shows "\<exists>entries. res_body (handler_part_001 pf e w request) = JObj
          [(''sales_count'', own_prop (product_of productRes) ''sales_count''),
           (''rating_average'',
              JNum (float_of pf
                (own_prop (own_prop (product_of productRes) ''rating'') ''average_rating''))),
           (''rating_count'', own_prop (own_prop (product_of productRes) ''rating'') ''count''),
           (''formatted_price'', own_prop (product_of productRes) ''formatted_price''),
           (''permalink'', own_prop (product_of productRes) ''permalink''),
           (''reviews'', JArr entries)]
        \<and> length entries = length (reviews_of reviewsRes)
        \<and> (\<forall>i<length (reviews_of reviewsRes).
              \<exists>name. own_prop (reviews_of reviewsRes ! i) ''user_name'' = JStr name
                \<and> entries ! i = JObj
                     [(''name'', JStr name),
                      (''rating'', own_prop (reviews_of reviewsRes ! i) ''rating''),
                      (''content'', own_prop (reviews_of reviewsRes ! i) ''review_content''),
                      (''avatar_id'', JStr (filter is_alnum name))])"
proof -
  have t: "try_block_part_001 pf e w =
      (issued_calls e, [], after_fetch_part_001 pf productRes reviewsRes)"
    by (rule try_block_part_001_of_responses [OF assms(1,2)])
  from assms(3) obtain responseData
    where d: "after_fetch_part_001 pf productRes reviewsRes = Inr responseData"
    by (cases "after_fetch_part_001 pf productRes reviewsRes")
       (simp_all add: handler_part_001_def t)
  then obtain productData reviewsData where pd: "body_json productRes = Inr productData"
    and rd: "body_json reviewsRes = Inr reviewsData"
    and rdp: "response_data_part_001 pf productData reviewsData = Inr responseData"
    by (cases "body_json productRes"; cases "body_json reviewsRes")
       (auto simp: after_fetch_part_001_def split: if_splits)
  from response_data_part_001_result [OF rdp] obtain v where
    v: "review_entries reviewsData = Inr v"
    and b: "responseData = JObj
          [(''sales_count'', own_prop (own_prop productData ''product'') ''sales_count''),
           (''rating_average'',
              JNum (float_of pf
                (own_prop (own_prop (own_prop productData ''product'') ''rating'')
                   ''average_rating''))),
           (''rating_count'',
              own_prop (own_prop (own_prop productData ''product'') ''rating'') ''count''),
           (''formatted_price'', own_prop (own_prop productData ''product'') ''formatted_price''),
           (''permalink'', own_prop (own_prop productData ''product'') ''permalink''),
           (''reviews'', v)]"
    by blast
  from review_entries_result [OF v] obtain xs ys where
    xs: "own_prop reviewsData ''reviews'' = JArr xs"
    and ys: "map_result review_entry xs = Inr ys" and vy: "v = JArr ys"
    by blast
  have ro: "reviews_of reviewsRes = xs" by (simp add: reviews_of_def rd xs)
  have po: "product_of productRes = own_prop productData ''product''"
    by (simp add: product_of_def pd)
  have "res_body (handler_part_001 pf e w request) = responseData"
    by (simp add: handler_part_001_def t d)
  with map_result_entries [OF ys] b show ?thesis
    unfolding ro po vy by blast
qed

end
